theory Spec2Isabelle
  imports Main "HOL-Library.Sublist" "HOL-Library.Char_ord" "HOL-Library.List_Lexorder"
begin

section \<open>Strings and unsigned sizes\<close>

text \<open>
  A \<^verbatim>\<open>std::string\<close> is a sequence of bytes, modelled as \<^typ>\<open>string\<close> (a list of
  8-bit characters). The backslash cannot stand inside a string literal, so it is
  written \<open>BS\<close>; bytes beyond ASCII (the UTF-8 encoding of the accented letters of the
  source file) are written \<open>CHR 0x..\<close>.
\<close>

abbreviation BS :: char where
  "BS \<equiv> CHR 0x5C"

text \<open>\<^verbatim>\<open>s.substr(pos, n)\<close> and \<^verbatim>\<open>s.substr(pos)\<close>, for \<open>pos \<le> s.size()\<close>.\<close>

definition substr :: "string \<Rightarrow> nat \<Rightarrow> nat \<Rightarrow> string" where
  "substr s pos n = take n (drop pos s)"

definition substr_from :: "string \<Rightarrow> nat \<Rightarrow> string" where
  "substr_from s pos = drop pos s"

text \<open>\<^verbatim>\<open>s.replace(pos, n, r)\<close>: the \<open>n\<close> bytes from \<open>pos\<close> give way to \<open>r\<close>.\<close>

definition str_replace :: "string \<Rightarrow> nat \<Rightarrow> nat \<Rightarrow> string \<Rightarrow> string" where
  "str_replace s pos n r = take pos s @ r @ drop (pos + n) s"

text \<open>\<^verbatim>\<open>s.compare(pos, pat.length(), pat) == 0\<close>: the bytes of \<open>s\<close> from \<open>pos\<close>, at most
  as many as \<open>pat\<close> has, are exactly \<open>pat\<close>.\<close>

definition compare_at :: "string \<Rightarrow> nat \<Rightarrow> string \<Rightarrow> bool" where
  "compare_at s pos pat = (take (length pat) (drop pos s) = pat)"

text \<open>\<^verbatim>\<open>s.find(pat, pos)\<close>: the first index at or after \<open>pos\<close> where \<open>pat\<close> starts;
  \<open>None\<close> is \<^verbatim>\<open>npos\<close>. \<open>find_in\<close> scans the rest of the string, \<open>i\<close> being the index of
  its first byte.\<close>

fun find_in :: "string \<Rightarrow> string \<Rightarrow> nat \<Rightarrow> nat option" where
  "find_in pat [] i = (if pat = [] then Some i else None)"
| "find_in pat (c # cs) i =
     (if take (length pat) (c # cs) = pat then Some i else find_in pat cs (Suc i))"

definition str_find :: "string \<Rightarrow> string \<Rightarrow> nat \<Rightarrow> nat option" where
  "str_find s pat pos = (if length s < pos then None else find_in pat (drop pos s) pos)"

text \<open>Subtraction of two \<^verbatim>\<open>size_t\<close> values (64 bits, both below \<open>2 ^ 64\<close>): it wraps.\<close>

definition size_t_sub :: "nat \<Rightarrow> nat \<Rightarrow> nat" where
  "size_t_sub a b = (a + 2 ^ 64 - b) mod 2 ^ 64"

section \<open>Section\<close>

datatype Level = CHAPTER | SECTION | SUBSECTION | SUBSUBSECTION

record Section =
  m_title_Section :: string
  m_level :: Level
  m_content_Section :: "string list"

definition Section_init :: "string \<Rightarrow> Level \<Rightarrow> Section" where
  "Section_init title level =
     \<lparr>m_title_Section = title, m_level = level, m_content_Section = []\<rparr>"

definition addContent :: "string \<Rightarrow> Section \<Rightarrow> Section" where
  "addContent content s = s\<lparr>m_content_Section := m_content_Section s @ [content]\<rparr>"

text \<open>\<^verbatim>\<open>Section::generate\<close>. The \<^verbatim>\<open>default\<close> branch of the switch (\<^verbatim>\<open>\paragraph\<close>) is
  taken by no value of the enumeration.\<close>

definition Section_generate :: "Section \<Rightarrow> string" where
  "Section_generate s =
     (case m_level s of
        CHAPTER \<Rightarrow> BS # ''chapter{'' @ m_title_Section s @ ''}\<newline>''
      | SECTION \<Rightarrow> BS # ''section{'' @ m_title_Section s @ ''}\<newline>''
      | SUBSECTION \<Rightarrow> BS # ''subsection{'' @ m_title_Section s @ ''}\<newline>''
      | SUBSUBSECTION \<Rightarrow> BS # ''subsubsection{'' @ m_title_Section s @ ''}\<newline>'')
     @ concat (map (\<lambda>content. content @ ''\<newline>'') (m_content_Section s))"

section \<open>Environments\<close>

text \<open>The base class holds the name of the LaTeX block; \<^verbatim>\<open>begin()\<close> and \<^verbatim>\<open>end()\<close> are
  not overridden by any variant.\<close>

record Environment =
  m_name :: string

definition Environment_begin :: "'a Environment_scheme \<Rightarrow> string" where
  "Environment_begin e = BS # ''begin{'' @ m_name e @ ''}\<newline>''"

definition Environment_end :: "'a Environment_scheme \<Rightarrow> string" where
  "Environment_end e = BS # ''end{'' @ m_name e @ ''}\<newline>''"

subsection \<open>Table\<close>

record Table = Environment +
  m_headers :: "string list"
  m_rows :: "string list list"
  m_caption_Table :: string
  m_label_Table :: string
  m_options_Table :: "string \<rightharpoonup> string"

definition Table_init :: "string list \<Rightarrow> string \<Rightarrow> Table" where
  "Table_init headers position =
     \<lparr>m_name = ''table'', m_headers = headers, m_rows = [], m_caption_Table = [],
      m_label_Table = [], m_options_Table = [''position'' \<mapsto> position]\<rparr>"

definition Table_setCaption :: "string \<Rightarrow> Table \<Rightarrow> Table" where
  "Table_setCaption caption t = t\<lparr>m_caption_Table := caption\<rparr>"

definition Table_setLabel :: "string \<Rightarrow> Table \<Rightarrow> Table" where
  "Table_setLabel label t = t\<lparr>m_label_Table := label\<rparr>"

definition addRow :: "string list \<Rightarrow> Table \<Rightarrow> Table" where
  "addRow row t = t\<lparr>m_rows := m_rows t @ [row]\<rparr>"

text \<open>The three index loops of \<^verbatim>\<open>Table::generate\<close>, each returning what it writes to the
  stream from index \<open>i\<close> on. \<open>numCols - 1\<close> is a \<^verbatim>\<open>size_t\<close> subtraction.\<close>

function colspec_loop :: "nat \<Rightarrow> nat \<Rightarrow> string" where
  "colspec_loop numCols i =
     (if i < numCols then ''|c'' @ colspec_loop numCols (i + 1) else [])"
  by pat_completeness auto
termination
  by (relation "measure (\<lambda>(numCols, i). numCols - i)") auto

function header_loop :: "string list \<Rightarrow> nat \<Rightarrow> nat \<Rightarrow> string" where
  "header_loop headers numCols i =
     (if i < numCols
      then headers ! i @ (if i < size_t_sub numCols 1 then '' & '' else [])
           @ header_loop headers numCols (i + 1)
      else [])"
  by pat_completeness auto
termination
  by (relation "measure (\<lambda>(headers, numCols, i). numCols - i)") auto

function row_loop :: "string list \<Rightarrow> nat \<Rightarrow> nat \<Rightarrow> string" where
  "row_loop row numCols i =
     (if i < length row \<and> i < numCols
      then row ! i @ (if i < size_t_sub numCols 1 then '' & '' else [])
           @ row_loop row numCols (i + 1)
      else [])"
  by pat_completeness auto
termination
  by (relation "measure (\<lambda>(row, numCols, i). numCols - i)") auto

declare colspec_loop.simps [simp del] header_loop.simps [simp del] row_loop.simps [simp del]

definition row_terminator :: string where
  "row_terminator = '' '' @ BS # BS # '' '' @ BS # ''hline\<newline>''"

text \<open>What \<^verbatim>\<open>Table::generate\<close> writes before the tabular block and after it.\<close>

definition Table_open :: "Table \<Rightarrow> string" where
  "Table_open t =
     BS # ''begin{table}''
     @ (if m_options_Table t \<noteq> Map.empty
        then (case m_options_Table t ''position'' of
                Some position \<Rightarrow> ''['' @ position @ '']''
              | None \<Rightarrow> [])
        else [])
     @ ''\<newline>'' @ BS # ''centering\<newline>''"

definition Table_close :: "Table \<Rightarrow> string" where
  "Table_close t =
     BS # ''end{tabular}\<newline>''
     @ (if m_caption_Table t \<noteq> [] then BS # ''caption{'' @ m_caption_Table t @ ''}\<newline>'' else [])
     @ (if m_label_Table t \<noteq> [] then BS # ''label{'' @ m_label_Table t @ ''}\<newline>'' else [])
     @ BS # ''end{table}\<newline>''"

text \<open>One pass of the loop over the rows: the line written for \<open>row\<close>.\<close>

definition Table_row_line :: "nat \<Rightarrow> string list \<Rightarrow> string" where
  "Table_row_line numCols row = row_loop row numCols 0 @ row_terminator"

definition Table_generate :: "Table \<Rightarrow> string" where
  "Table_generate t =
     (let numCols = length (m_headers t) in
      Table_open t
      @ BS # ''begin{tabular}{'' @ colspec_loop numCols 0 @ ''|}\<newline>'' @ BS # ''hline\<newline>''
      @ header_loop (m_headers t) numCols 0 @ row_terminator
      @ concat (map (Table_row_line numCols) (m_rows t))
      @ Table_close t)"

text \<open>The words of the specification: cells joined by the separator.\<close>

fun join :: "string \<Rightarrow> string list \<Rightarrow> string" where
  "join sep [] = []"
| "join sep [x] = x"
| "join sep (x # y # ys) = x @ sep @ join sep (y # ys)"


subsection \<open>Figure\<close>

record Figure = Environment +
  m_imagePath :: string
  m_caption_Figure :: string
  m_label_Figure :: string
  m_width :: string
  m_options_Figure :: "string \<rightharpoonup> string"

definition Figure_init :: "string \<Rightarrow> string \<Rightarrow> Figure" where
  "Figure_init imagePath position =
     \<lparr>m_name = ''figure'', m_imagePath = imagePath, m_caption_Figure = [],
      m_label_Figure = [], m_width = ''0.8'' @ BS # ''textwidth'',
      m_options_Figure = [''position'' \<mapsto> position]\<rparr>"

definition Figure_setCaption :: "string \<Rightarrow> Figure \<Rightarrow> Figure" where
  "Figure_setCaption caption f = f\<lparr>m_caption_Figure := caption\<rparr>"

definition Figure_setLabel :: "string \<Rightarrow> Figure \<Rightarrow> Figure" where
  "Figure_setLabel label f = f\<lparr>m_label_Figure := label\<rparr>"

definition setWidth :: "string \<Rightarrow> Figure \<Rightarrow> Figure" where
  "setWidth width f = f\<lparr>m_width := width\<rparr>"

definition Figure_generate :: "Figure \<Rightarrow> string" where
  "Figure_generate f =
     BS # ''begin{figure}''
     @ (if m_options_Figure f \<noteq> Map.empty
        then (case m_options_Figure f ''position'' of
                Some position \<Rightarrow> ''['' @ position @ '']''
              | None \<Rightarrow> [])
        else [])
     @ ''\<newline>'' @ BS # ''centering\<newline>''
     @ BS # ''includegraphics''
     @ (if m_width f \<noteq> [] then ''[width='' @ m_width f @ '']'' else [])
     @ ''{'' @ m_imagePath f @ ''}\<newline>''
     @ (if m_caption_Figure f \<noteq> [] then BS # ''caption{'' @ m_caption_Figure f @ ''}\<newline>'' else [])
     @ (if m_label_Figure f \<noteq> [] then BS # ''label{'' @ m_label_Figure f @ ''}\<newline>'' else [])
     @ BS # ''end{figure}\<newline>''"

subsection \<open>Equation\<close>

record Equation = Environment +
  m_content_Equation :: string
  m_label_Equation :: string

definition Equation_init :: "bool \<Rightarrow> Equation" where
  "Equation_init numbered =
     \<lparr>m_name = (if numbered then ''equation'' else ''equation*''),
      m_content_Equation = [], m_label_Equation = []\<rparr>"

definition Equation_setContent :: "string \<Rightarrow> Equation \<Rightarrow> Equation" where
  "Equation_setContent content e = e\<lparr>m_content_Equation := content\<rparr>"

definition Equation_setLabel :: "string \<Rightarrow> Equation \<Rightarrow> Equation" where
  "Equation_setLabel label e = e\<lparr>m_label_Equation := label\<rparr>"

definition Equation_generate :: "Equation \<Rightarrow> string" where
  "Equation_generate e =
     Environment_begin e
     @ m_content_Equation e @ ''\<newline>''
     @ (if m_label_Equation e \<noteq> [] then BS # ''label{'' @ m_label_Equation e @ ''}\<newline>'' else [])
     @ Environment_end e"

subsection \<open>List\<close>

datatype ListType = ITEMIZE | ENUMERATE | DESCRIPTION

record List_Env = Environment +
  m_type_List :: ListType
  m_items :: "string list"
  m_itemLabels :: "nat \<rightharpoonup> string"

definition List_init :: "ListType \<Rightarrow> List_Env" where
  "List_init type =
     \<lparr>m_name = (if type = ITEMIZE then ''itemize''
                else if type = ENUMERATE then ''enumerate'' else ''description''),
      m_type_List = type, m_items = [], m_itemLabels = Map.empty\<rparr>"

definition addItem :: "string \<Rightarrow> string \<Rightarrow> List_Env \<Rightarrow> List_Env" where
  "addItem item label l =
     (let l' = l\<lparr>m_items := m_items l @ [item]\<rparr> in
      if label \<noteq> []
      then l'\<lparr>m_itemLabels := (m_itemLabels l')(size_t_sub (length (m_items l')) 1 \<mapsto> label)\<rparr>
      else l')"

text \<open>One pass of the loop over the items, at index \<open>i\<close>.\<close>

definition List_item :: "List_Env \<Rightarrow> nat \<Rightarrow> string" where
  "List_item l i =
     BS # ''item ''
     @ (if m_type_List l = DESCRIPTION
        then (case m_itemLabels l i of Some label \<Rightarrow> ''['' @ label @ ''] '' | None \<Rightarrow> [])
        else [])
     @ m_items l ! i @ ''\<newline>''"

definition List_generate :: "List_Env \<Rightarrow> string" where
  "List_generate l =
     Environment_begin l
     @ concat (map (List_item l) [0 ..< length (m_items l)])
     @ Environment_end l"

subsection \<open>Algorithm\<close>

text \<open>A line of pseudocode with its indentation level (a C++ \<^verbatim>\<open>int\<close>).\<close>

record Algorithm = Environment +
  m_caption_Algorithm :: string
  m_label_Algorithm :: string
  m_lines :: "(string \<times> int) list"

definition Algorithm_init :: "string \<Rightarrow> Algorithm" where
  "Algorithm_init caption =
     \<lparr>m_name = ''algorithm'', m_caption_Algorithm = caption, m_label_Algorithm = [],
      m_lines = []\<rparr>"

definition Algorithm_setCaption :: "string \<Rightarrow> Algorithm \<Rightarrow> Algorithm" where
  "Algorithm_setCaption caption a = a\<lparr>m_caption_Algorithm := caption\<rparr>"

definition Algorithm_setLabel :: "string \<Rightarrow> Algorithm \<Rightarrow> Algorithm" where
  "Algorithm_setLabel label a = a\<lparr>m_label_Algorithm := label\<rparr>"

definition addLine :: "string \<Rightarrow> int \<Rightarrow> Algorithm \<Rightarrow> Algorithm" where
  "addLine line indent a = a\<lparr>m_lines := m_lines a @ [(line, indent)]\<rparr>"

definition addComment :: "string \<Rightarrow> int \<Rightarrow> Algorithm \<Rightarrow> Algorithm" where
  "addComment comment indent a =
     addLine (BS # (if 0 < indent then ''>'' @ [BS] else []) @ ''Comment{'' @ comment @ ''}'')
       indent a"

definition addForLoop :: "string \<Rightarrow> int \<Rightarrow> Algorithm \<Rightarrow> Algorithm" where
  "addForLoop condition indent a = addLine (BS # ''For{'' @ condition @ ''}'') indent a"

definition addWhileLoop :: "string \<Rightarrow> int \<Rightarrow> Algorithm \<Rightarrow> Algorithm" where
  "addWhileLoop condition indent a = addLine (BS # ''While{'' @ condition @ ''}'') indent a"

definition addIf :: "string \<Rightarrow> int \<Rightarrow> Algorithm \<Rightarrow> Algorithm" where
  "addIf condition indent a = addLine (BS # ''If{'' @ condition @ ''}'') indent a"

definition addElse :: "int \<Rightarrow> Algorithm \<Rightarrow> Algorithm" where
  "addElse indent a = addLine (BS # ''Else'') indent a"

definition addElseIf :: "string \<Rightarrow> int \<Rightarrow> Algorithm \<Rightarrow> Algorithm" where
  "addElseIf condition indent a = addLine (BS # ''ElsIf{'' @ condition @ ''}'') indent a"

definition addEnd :: "string \<Rightarrow> int \<Rightarrow> Algorithm \<Rightarrow> Algorithm" where
  "addEnd statement indent a = addLine (BS # ''End'' @ statement) indent a"

definition addReturn :: "string \<Rightarrow> int \<Rightarrow> Algorithm \<Rightarrow> Algorithm" where
  "addReturn val indent a = addLine (''\<newline>'' @ BS # ''Return{'' @ val @ ''}'') indent a"

definition addBreak :: "int \<Rightarrow> Algorithm \<Rightarrow> Algorithm" where
  "addBreak indent a = addLine (BS # ''Break'') indent a"

definition addContinue :: "int \<Rightarrow> Algorithm \<Rightarrow> Algorithm" where
  "addContinue indent a = addLine (BS # ''Continue'') indent a"

definition addFunction :: "string \<Rightarrow> string \<Rightarrow> int \<Rightarrow> Algorithm \<Rightarrow> Algorithm" where
  "addFunction name args indent a =
     addLine (BS # ''Function{'' @ name @ ''}('' @ args @ '')'') indent a"

definition addFunctionEnd :: "int \<Rightarrow> Algorithm \<Rightarrow> Algorithm" where
  "addFunctionEnd indent a = addLine (BS # ''EndFunction'') indent a"

text \<open>The inner loop \<^verbatim>\<open>for (int i = 0; i < line.second; ++i)\<close> writes the indentation
  unit \<open>line.second\<close> times, and nothing for a negative level.\<close>

definition Algorithm_line :: "string \<times> int \<Rightarrow> string" where
  "Algorithm_line line = concat (replicate (nat (snd line)) ''    '') @ fst line @ ''\<newline>''"

definition Algorithm_generate :: "Algorithm \<Rightarrow> string" where
  "Algorithm_generate a =
     BS # ''begin{algorithm}\<newline>''
     @ (if m_caption_Algorithm a \<noteq> [] then BS # ''caption{'' @ m_caption_Algorithm a @ ''}\<newline>'' else [])
     @ (if m_label_Algorithm a \<noteq> [] then BS # ''label{'' @ m_label_Algorithm a @ ''}\<newline>'' else [])
     @ BS # ''begin{algorithmic}[1]\<newline>''
     @ concat (map Algorithm_line (m_lines a))
     @ BS # ''end{algorithmic}\<newline>''
     @ BS # ''end{algorithm}\<newline>''"

definition getAlgorithmPackages :: string where
  "getAlgorithmPackages =
     BS # ''usepackage{algorithm}\<newline>'' @ BS # ''usepackage{algpseudocode}\<newline>''"

subsection \<open>TheoremEnvironment\<close>

datatype TheoremType =
  THEOREM | LEMMA | PROPOSITION | COROLLARY | DEFINITION | EXAMPLE | REMARK | PROOF | CUSTOM

record TheoremEnvironment = Environment +
  m_type_Theorem :: TheoremType
  m_content_Theorem :: string
  m_title_Theorem :: string
  m_customType :: string

fun getEnvironmentName :: "TheoremType \<Rightarrow> string" where
  "getEnvironmentName THEOREM = ''theorem''"
| "getEnvironmentName LEMMA = ''lemma''"
| "getEnvironmentName PROPOSITION = ''proposition''"
| "getEnvironmentName COROLLARY = ''corollary''"
| "getEnvironmentName DEFINITION = ''definition''"
| "getEnvironmentName EXAMPLE = ''example''"
| "getEnvironmentName REMARK = ''remark''"
| "getEnvironmentName PROOF = ''proof''"
| "getEnvironmentName CUSTOM = ''customtheorem''"

definition TheoremEnvironment_init :: "TheoremType \<Rightarrow> string \<Rightarrow> string \<Rightarrow> TheoremEnvironment" where
  "TheoremEnvironment_init type content title =
     \<lparr>m_name = getEnvironmentName type, m_type_Theorem = type, m_content_Theorem = content,
      m_title_Theorem = title, m_customType = []\<rparr>"

definition TheoremEnvironment_init_custom :: "string \<Rightarrow> string \<Rightarrow> string \<Rightarrow> TheoremEnvironment" where
  "TheoremEnvironment_init_custom customType content title =
     \<lparr>m_name = customType, m_type_Theorem = CUSTOM, m_content_Theorem = content,
      m_title_Theorem = title, m_customType = customType\<rparr>"

definition TheoremEnvironment_setContent :: "string \<Rightarrow> TheoremEnvironment \<Rightarrow> TheoremEnvironment" where
  "TheoremEnvironment_setContent content th = th\<lparr>m_content_Theorem := content\<rparr>"

definition TheoremEnvironment_setTitle :: "string \<Rightarrow> TheoremEnvironment \<Rightarrow> TheoremEnvironment" where
  "TheoremEnvironment_setTitle title th = th\<lparr>m_title_Theorem := title\<rparr>"

definition TheoremEnvironment_generate :: "TheoremEnvironment \<Rightarrow> string" where
  "TheoremEnvironment_generate th =
     BS # ''begin{'' @ m_name th @ ''}''
     @ (if m_title_Theorem th \<noteq> [] then ''['' @ m_title_Theorem th @ '']'' else [])
     @ ''\<newline>''
     @ m_content_Theorem th @ ''\<newline>''
     @ BS # ''end{'' @ m_name th @ ''}\<newline>''"

subsection \<open>The polymorphic environment\<close>

text \<open>A \<^verbatim>\<open>std::shared_ptr<Environment>\<close> points to an object of one of the six
  variants; the virtual \<^verbatim>\<open>generate()\<close> dispatches on it. \<^verbatim>\<open>begin()\<close> and \<^verbatim>\<open>end()\<close> are
  the base class's for every variant.\<close>

datatype AnyEnvironment =
    IsTable Table
  | IsFigure Figure
  | IsEquation Equation
  | IsList List_Env
  | IsAlgorithm Algorithm
  | IsTheoremEnvironment TheoremEnvironment

fun generate_Environment :: "AnyEnvironment \<Rightarrow> string" where
  "generate_Environment (IsTable t) = Table_generate t"
| "generate_Environment (IsFigure f) = Figure_generate f"
| "generate_Environment (IsEquation e) = Equation_generate e"
| "generate_Environment (IsList l) = List_generate l"
| "generate_Environment (IsAlgorithm a) = Algorithm_generate a"
| "generate_Environment (IsTheoremEnvironment th) = TheoremEnvironment_generate th"

fun name_Environment :: "AnyEnvironment \<Rightarrow> string" where
  "name_Environment (IsTable t) = m_name t"
| "name_Environment (IsFigure f) = m_name f"
| "name_Environment (IsEquation e) = m_name e"
| "name_Environment (IsList l) = m_name l"
| "name_Environment (IsAlgorithm a) = m_name a"
| "name_Environment (IsTheoremEnvironment th) = m_name th"

fun begin_Environment :: "AnyEnvironment \<Rightarrow> string" where
  "begin_Environment (IsTable t) = Environment_begin t"
| "begin_Environment (IsFigure f) = Environment_begin f"
| "begin_Environment (IsEquation e) = Environment_begin e"
| "begin_Environment (IsList l) = Environment_begin l"
| "begin_Environment (IsAlgorithm a) = Environment_begin a"
| "begin_Environment (IsTheoremEnvironment th) = Environment_begin th"

fun end_Environment :: "AnyEnvironment \<Rightarrow> string" where
  "end_Environment (IsTable t) = Environment_end t"
| "end_Environment (IsFigure f) = Environment_end f"
| "end_Environment (IsEquation e) = Environment_end e"
| "end_Environment (IsList l) = Environment_end l"
| "end_Environment (IsAlgorithm a) = Environment_end a"
| "end_Environment (IsTheoremEnvironment th) = Environment_end th"

text \<open>The name of the block is given by the constructor and no method changes it: a
  \<open>Table\<close> is always named \<open>table\<close>, a \<open>Figure\<close> \<open>figure\<close>, an \<open>Algorithm\<close>
  \<open>algorithm\<close>. The other variants take their name from a constructor argument.\<close>

fun name_as_constructed :: "AnyEnvironment \<Rightarrow> bool" where
  "name_as_constructed (IsTable t) = (m_name t = ''table'')"
| "name_as_constructed (IsFigure f) = (m_name f = ''figure'')"
| "name_as_constructed (IsAlgorithm a) = (m_name a = ''algorithm'')"
| "name_as_constructed (IsEquation e) = True"
| "name_as_constructed (IsList l) = True"
| "name_as_constructed (IsTheoremEnvironment th) = True"

text \<open>The variants that write nothing between the block name and the end of the
  first line: all but \<open>Table\<close> and \<open>Figure\<close> (position option) and a
  \<open>TheoremEnvironment\<close> with a title.\<close>

fun plain_first_line :: "AnyEnvironment \<Rightarrow> bool" where
  "plain_first_line (IsTable t) = False"
| "plain_first_line (IsFigure f) = False"
| "plain_first_line (IsEquation e) = True"
| "plain_first_line (IsList l) = True"
| "plain_first_line (IsAlgorithm a) = True"
| "plain_first_line (IsTheoremEnvironment th) = (m_title_Theorem th = [])"

text \<open>The number of places of a text where a given text stands.\<close>

fun occurrences :: "string \<Rightarrow> string \<Rightarrow> nat" where
  "occurrences pat [] = 0"
| "occurrences pat (c # cs) =
     (if take (length pat) (c # cs) = pat then 1 else 0) + occurrences pat cs"

section \<open>Languages and bibliography\<close>

datatype DocumentType = ARTICLE | REPORT | BOOK | PRESENTATION

datatype Language =
  ENGLISH | FRENCH | GERMAN | SPANISH | ITALIAN | PORTUGUESE | DUTCH | RUSSIAN | CHINESE
  | JAPANESE | ARABIC

datatype BibStyle =
  PLAIN | ALPHA | ABBRV | ACM | IEEE | APA | CHICAGO | MLA | HARVARD | CUSTOM_BibStyle

fun getBabelLanguageName :: "Language \<Rightarrow> string" where
  "getBabelLanguageName ENGLISH = ''english''"
| "getBabelLanguageName FRENCH = ''french''"
| "getBabelLanguageName GERMAN = ''german,provide=*''"
| "getBabelLanguageName SPANISH = ''spanish,provide=*''"
| "getBabelLanguageName ITALIAN = ''italian,provide=*''"
| "getBabelLanguageName PORTUGUESE = ''portuguese,provide=*''"
| "getBabelLanguageName DUTCH = ''dutch,provide=*''"
| "getBabelLanguageName RUSSIAN = ''russian,provide=*''"
| "getBabelLanguageName CHINESE = ''chinese,provide=*''"
| "getBabelLanguageName JAPANESE = ''japanese,provide=*''"
| "getBabelLanguageName ARABIC = ''arabic,provide=*''"

text \<open>\<^verbatim>\<open>TheoremEnvironment::getTheoremSetup\<close>: the eight names a language gives the
  theorem-like environments (the \<^verbatim>\<open>default\<close> branch is the English one).\<close>

fun name_theorem :: "Language \<Rightarrow> string" where
  "name_theorem ENGLISH = ''Theorem''"
| "name_theorem FRENCH = ''Th'' @ CHR 0xC3 # CHR 0xA9 # ''or'' @ CHR 0xC3 # CHR 0xA8 # ''me''"
| "name_theorem GERMAN = ''Satz''"
| "name_theorem SPANISH = ''Teorema''"
| "name_theorem ITALIAN = ''Teorema''"
| "name_theorem PORTUGUESE = ''Theorem''"
| "name_theorem DUTCH = ''Theorem''"
| "name_theorem RUSSIAN = ''Theorem''"
| "name_theorem CHINESE = ''Theorem''"
| "name_theorem JAPANESE = ''Theorem''"
| "name_theorem ARABIC = ''Theorem''"

fun name_lemma :: "Language \<Rightarrow> string" where
  "name_lemma ENGLISH = ''Lemma''"
| "name_lemma FRENCH = ''Lemme''"
| "name_lemma GERMAN = ''Lemma''"
| "name_lemma SPANISH = ''Lema''"
| "name_lemma ITALIAN = ''Lemma''"
| "name_lemma PORTUGUESE = ''Lemma''"
| "name_lemma DUTCH = ''Lemma''"
| "name_lemma RUSSIAN = ''Lemma''"
| "name_lemma CHINESE = ''Lemma''"
| "name_lemma JAPANESE = ''Lemma''"
| "name_lemma ARABIC = ''Lemma''"

fun name_proposition :: "Language \<Rightarrow> string" where
  "name_proposition ENGLISH = ''Proposition''"
| "name_proposition FRENCH = ''Proposition''"
| "name_proposition GERMAN = ''Behauptung''"
| "name_proposition SPANISH = ''Proposici'' @ CHR 0xC3 # CHR 0xB3 # ''n''"
| "name_proposition ITALIAN = ''Proposizione''"
| "name_proposition PORTUGUESE = ''Proposition''"
| "name_proposition DUTCH = ''Proposition''"
| "name_proposition RUSSIAN = ''Proposition''"
| "name_proposition CHINESE = ''Proposition''"
| "name_proposition JAPANESE = ''Proposition''"
| "name_proposition ARABIC = ''Proposition''"

fun name_corollary :: "Language \<Rightarrow> string" where
  "name_corollary ENGLISH = ''Corollary''"
| "name_corollary FRENCH = ''Corollaire''"
| "name_corollary GERMAN = ''Korollar''"
| "name_corollary SPANISH = ''Corolario''"
| "name_corollary ITALIAN = ''Corollario''"
| "name_corollary PORTUGUESE = ''Corollary''"
| "name_corollary DUTCH = ''Corollary''"
| "name_corollary RUSSIAN = ''Corollary''"
| "name_corollary CHINESE = ''Corollary''"
| "name_corollary JAPANESE = ''Corollary''"
| "name_corollary ARABIC = ''Corollary''"

fun name_definition :: "Language \<Rightarrow> string" where
  "name_definition ENGLISH = ''Definition''"
| "name_definition FRENCH = ''D'' @ CHR 0xC3 # CHR 0xA9 # ''finition''"
| "name_definition GERMAN = ''Definition''"
| "name_definition SPANISH = ''Definici'' @ CHR 0xC3 # CHR 0xB3 # ''n''"
| "name_definition ITALIAN = ''Definizione''"
| "name_definition PORTUGUESE = ''Definition''"
| "name_definition DUTCH = ''Definition''"
| "name_definition RUSSIAN = ''Definition''"
| "name_definition CHINESE = ''Definition''"
| "name_definition JAPANESE = ''Definition''"
| "name_definition ARABIC = ''Definition''"

fun name_example :: "Language \<Rightarrow> string" where
  "name_example ENGLISH = ''Example''"
| "name_example FRENCH = ''Exemple''"
| "name_example GERMAN = ''Beispiel''"
| "name_example SPANISH = ''Ejemplo''"
| "name_example ITALIAN = ''Esempio''"
| "name_example PORTUGUESE = ''Example''"
| "name_example DUTCH = ''Example''"
| "name_example RUSSIAN = ''Example''"
| "name_example CHINESE = ''Example''"
| "name_example JAPANESE = ''Example''"
| "name_example ARABIC = ''Example''"

fun name_remark :: "Language \<Rightarrow> string" where
  "name_remark ENGLISH = ''Remark''"
| "name_remark FRENCH = ''Remarque''"
| "name_remark GERMAN = ''Bemerkung''"
| "name_remark SPANISH = ''Observaci'' @ CHR 0xC3 # CHR 0xB3 # ''n''"
| "name_remark ITALIAN = ''Osservazione''"
| "name_remark PORTUGUESE = ''Remark''"
| "name_remark DUTCH = ''Remark''"
| "name_remark RUSSIAN = ''Remark''"
| "name_remark CHINESE = ''Remark''"
| "name_remark JAPANESE = ''Remark''"
| "name_remark ARABIC = ''Remark''"

fun name_proof :: "Language \<Rightarrow> string" where
  "name_proof ENGLISH = ''Proof''"
| "name_proof FRENCH = ''Preuve''"
| "name_proof GERMAN = ''Beweis''"
| "name_proof SPANISH = ''Demostraci'' @ CHR 0xC3 # CHR 0xB3 # ''n''"
| "name_proof ITALIAN = ''Dimostrazione''"
| "name_proof PORTUGUESE = ''Proof''"
| "name_proof DUTCH = ''Proof''"
| "name_proof RUSSIAN = ''Proof''"
| "name_proof CHINESE = ''Proof''"
| "name_proof JAPANESE = ''Proof''"
| "name_proof ARABIC = ''Proof''"

definition getTheoremSetup :: "Language \<Rightarrow> string" where
  "getTheoremSetup language =
     BS # ''usepackage{amsthm}\<newline>''
     @ BS # ''theoremstyle{plain}\<newline>''
     @ BS # ''newtheorem{theorem}{'' @ name_theorem language @ ''}\<newline>''
     @ BS # ''newtheorem{lemma}[theorem]{'' @ name_lemma language @ ''}\<newline>''
     @ BS # ''newtheorem{proposition}[theorem]{'' @ name_proposition language @ ''}\<newline>''
     @ BS # ''newtheorem{corollary}[theorem]{'' @ name_corollary language @ ''}\<newline>''
     @ BS # ''theoremstyle{definition}\<newline>''
     @ BS # ''newtheorem{definition}{'' @ name_definition language @ ''}\<newline>''
     @ BS # ''newtheorem{example}{'' @ name_example language @ ''}\<newline>''
     @ BS # ''theoremstyle{remark}\<newline>''
     @ BS # ''newtheorem{remark}{'' @ name_remark language @ ''}\<newline>''
     @ BS # ''renewcommand{'' @ BS # ''proofname}{'' @ name_proof language @ ''}\<newline>''"

text \<open>A \<^verbatim>\<open>std::map\<close> with string keys that is iterated: the entries in increasing key
  order (bytes compared as unsigned), each key once. \<open>map_assign\<close> is
  \<^verbatim>\<open>m[k] = v\<close>.\<close>

fun map_assign :: "string \<Rightarrow> 'v \<Rightarrow> (string \<times> 'v) list \<Rightarrow> (string \<times> 'v) list" where
  "map_assign k v [] = [(k, v)]"
| "map_assign k v ((k', v') # m) =
     (if k < k' then (k, v) # (k', v') # m
      else if k = k' then (k, v) # m
      else (k', v') # map_assign k v m)"

datatype EntryType =
  ARTICLE_Entry | BOOK_Entry | INPROCEEDINGS | TECHREPORT | PHDTHESIS | MASTERSTHESIS | MISC

record BibEntry =
  m_key :: string
  m_type_BibEntry :: EntryType
  m_fields :: "(string \<times> string) list"

definition BibEntry_init :: "string \<Rightarrow> EntryType \<Rightarrow> BibEntry" where
  "BibEntry_init key type = \<lparr>m_key = key, m_type_BibEntry = type, m_fields = []\<rparr>"

definition addField :: "string \<Rightarrow> string \<Rightarrow> BibEntry \<Rightarrow> BibEntry" where
  "addField field val e = e\<lparr>m_fields := map_assign field val (m_fields e)\<rparr>"

record Bibliography =
  m_bibFile :: string
  m_style :: BibStyle
  m_customStyle :: string
  m_useExternalFile :: bool
  m_entries :: "BibEntry list"

definition Bibliography_init :: "string \<Rightarrow> BibStyle \<Rightarrow> Bibliography" where
  "Bibliography_init bibFile style =
     \<lparr>m_bibFile = bibFile, m_style = style, m_customStyle = [], m_useExternalFile = True,
      m_entries = []\<rparr>"

definition Bibliography_default :: Bibliography where
  "Bibliography_default =
     \<lparr>m_bibFile = ''references'', m_style = PLAIN, m_customStyle = [],
      m_useExternalFile = False, m_entries = []\<rparr>"

definition Bibliography_init_custom :: "string \<Rightarrow> string \<Rightarrow> Bibliography" where
  "Bibliography_init_custom bibFile customStyle =
     \<lparr>m_bibFile = bibFile, m_style = CUSTOM_BibStyle, m_customStyle = customStyle,
      m_useExternalFile = True, m_entries = []\<rparr>"

definition setBibFile :: "string \<Rightarrow> bool \<Rightarrow> Bibliography \<Rightarrow> Bibliography" where
  "setBibFile bibFile useExternalFile b =
     b\<lparr>m_bibFile := bibFile, m_useExternalFile := useExternalFile\<rparr>"

definition addEntry :: "BibEntry \<Rightarrow> Bibliography \<Rightarrow> Bibliography" where
  "addEntry entry b = b\<lparr>m_entries := m_entries b @ [entry], m_useExternalFile := False\<rparr>"

definition setStyle :: "BibStyle \<Rightarrow> Bibliography \<Rightarrow> Bibliography" where
  "setStyle style b =
     (let b' = b\<lparr>m_style := style\<rparr> in
      if style \<noteq> CUSTOM_BibStyle then b'\<lparr>m_customStyle := []\<rparr> else b')"

definition setCustomStyle :: "string \<Rightarrow> Bibliography \<Rightarrow> Bibliography" where
  "setCustomStyle customStyle b = b\<lparr>m_style := CUSTOM_BibStyle, m_customStyle := customStyle\<rparr>"

definition getStyleName :: "Bibliography \<Rightarrow> string" where
  "getStyleName b =
     (case m_style b of
        PLAIN \<Rightarrow> ''plain'' | ALPHA \<Rightarrow> ''alpha'' | ABBRV \<Rightarrow> ''abbrv'' | ACM \<Rightarrow> ''acm''
      | IEEE \<Rightarrow> ''ieeetr'' | APA \<Rightarrow> ''apalike'' | CHICAGO \<Rightarrow> ''chicago'' | MLA \<Rightarrow> ''mla''
      | HARVARD \<Rightarrow> ''harvard'' | CUSTOM_BibStyle \<Rightarrow> m_customStyle b)"

definition getPreambleConfig :: "Bibliography \<Rightarrow> string" where
  "getPreambleConfig b = []"

text \<open>\<^verbatim>\<open>Bibliography::getIncludeCommands\<close>; the title it is given, or computes, is not
  written.\<close>

definition getIncludeCommands :: "Bibliography \<Rightarrow> string \<Rightarrow> string" where
  "getIncludeCommands b title =
     ''\<newline>'' @ BS # ''bibliographystyle{'' @ getStyleName b @ ''}\<newline>''
     @ BS # ''bibliography{'' @ m_bibFile b @ ''}\<newline>''"

definition getBibFile :: "Bibliography \<Rightarrow> string" where
  "getBibFile b = m_bibFile b"

section \<open>Document\<close>

text \<open>The environments a document holds are shared pointers; the model holds the
  objects they point to, as they are when the document is generated.\<close>

record Document =
  m_type :: DocumentType
  m_title :: string
  m_author :: string
  m_date :: string
  m_language :: Language
  m_packages :: "(string \<times> string) list"
  m_sections :: "Section list"
  m_environments :: "AnyEnvironment list"
  m_rawContent :: "string list"
  m_customPreamble :: "string list"
  m_usedCitations :: "string set"
  m_bibliography :: Bibliography
  m_theoremsEnabled :: bool
  m_algorithmsEnabled :: bool

definition addPackage :: "string \<Rightarrow> string \<Rightarrow> 'a Document_scheme \<Rightarrow> 'a Document_scheme" where
  "addPackage package options d = d\<lparr>m_packages := map_assign package options (m_packages d)\<rparr>"

text \<open>A sequence of \<open>addPackage\<close> calls, each a package name with its options, made
  in the order of the list.\<close>

definition addPackages ::
  "(string \<times> string) list \<Rightarrow> 'a Document_scheme \<Rightarrow> 'a Document_scheme" where
  "addPackages calls d = fold (\<lambda>call. addPackage (fst call) (snd call)) calls d"

definition addSection :: "Section \<Rightarrow> 'a Document_scheme \<Rightarrow> 'a Document_scheme" where
  "addSection section d = d\<lparr>m_sections := m_sections d @ [section]\<rparr>"

definition addEnvironment :: "AnyEnvironment \<Rightarrow> 'a Document_scheme \<Rightarrow> 'a Document_scheme" where
  "addEnvironment env d = d\<lparr>m_environments := m_environments d @ [env]\<rparr>"

definition addRawContent :: "string \<Rightarrow> 'a Document_scheme \<Rightarrow> 'a Document_scheme" where
  "addRawContent content d = d\<lparr>m_rawContent := m_rawContent d @ [content]\<rparr>"

text \<open>\<^verbatim>\<open>cite\<close> and \<^verbatim>\<open>citePages\<close> return the citation command and record the key.\<close>

definition cite :: "string \<Rightarrow> 'a Document_scheme \<Rightarrow> string \<times> 'a Document_scheme" where
  "cite key d =
     (BS # ''cite{'' @ key @ ''}'', d\<lparr>m_usedCitations := insert key (m_usedCitations d)\<rparr>)"

definition citePages :: "string \<Rightarrow> string \<Rightarrow> 'a Document_scheme \<Rightarrow> string \<times> 'a Document_scheme" where
  "citePages key pages d =
     (BS # ''cite['' @ pages @ '']{'' @ key @ ''}'',
      d\<lparr>m_usedCitations := insert key (m_usedCitations d)\<rparr>)"

definition setBibliography :: "Bibliography \<Rightarrow> 'a Document_scheme \<Rightarrow> 'a Document_scheme" where
  "setBibliography bibliography d = d\<lparr>m_bibliography := bibliography\<rparr>"

definition enableTheorems :: "'a Document_scheme \<Rightarrow> 'a Document_scheme" where
  "enableTheorems d = d\<lparr>m_theoremsEnabled := True\<rparr>"

definition enableAlgorithms :: "'a Document_scheme \<Rightarrow> 'a Document_scheme" where
  "enableAlgorithms d = d\<lparr>m_algorithmsEnabled := True\<rparr>"

definition addInPreamble :: "string \<Rightarrow> 'a Document_scheme \<Rightarrow> 'a Document_scheme" where
  "addInPreamble content d = d\<lparr>m_customPreamble := m_customPreamble d @ [content]\<rparr>"

definition setTitle :: "string \<Rightarrow> 'a Document_scheme \<Rightarrow> 'a Document_scheme" where
  "setTitle title d = d\<lparr>m_title := title\<rparr>"

definition setAuthor :: "string \<Rightarrow> 'a Document_scheme \<Rightarrow> 'a Document_scheme" where
  "setAuthor author d = d\<lparr>m_author := author\<rparr>"

definition setDate :: "string \<Rightarrow> 'a Document_scheme \<Rightarrow> 'a Document_scheme" where
  "setDate date d = d\<lparr>m_date := date\<rparr>"

definition setLanguage :: "Language \<Rightarrow> 'a Document_scheme \<Rightarrow> 'a Document_scheme" where
  "setLanguage language d = d\<lparr>m_language := language\<rparr>"

text \<open>The constructor: the members as given or defaulted, then the packages every
  document loads and the ones the language asks for.\<close>

definition Document_init ::
  "DocumentType \<Rightarrow> string \<Rightarrow> string \<Rightarrow> string \<Rightarrow> Language \<Rightarrow> Document" where
  "Document_init type title author date language =
     (let d0 = \<lparr>m_type = type, m_title = title, m_author = author, m_date = date,
                m_language = language, m_packages = [], m_sections = [], m_environments = [],
                m_rawContent = [], m_customPreamble = [], m_usedCitations = {},
                m_bibliography = Bibliography_default, m_theoremsEnabled = False,
                m_algorithmsEnabled = False\<rparr>;
          d1 = addPackage ''inputenc'' ''utf8'' d0;
          d2 = addPackage ''fontenc'' ''T1'' d1;
          d3 = (if language \<noteq> ENGLISH
                then addPackage ''babel'' (getBabelLanguageName language) d2 else d2)
      in case language of
           RUSSIAN \<Rightarrow> addPackage ''cyrillic'' [] d3
         | CHINESE \<Rightarrow> addPackage ''xeCJK'' [] d3
         | JAPANESE \<Rightarrow> addPackage ''xeCJK'' [] d3
         | ARABIC \<Rightarrow> addPackage ''arabxetex'' [] d3
         | _ \<Rightarrow> d3)"

text \<open>The convenience constructors make an environment, load the package or enable the
  feature it needs, and attach it. They return a pointer to the new environment as
  well; the model returns the document.\<close>

definition addFigure ::
  "string \<Rightarrow> string \<Rightarrow> string \<Rightarrow> string \<Rightarrow> string \<Rightarrow> 'a Document_scheme \<Rightarrow> 'a Document_scheme" where
  "addFigure imagePath caption label width position d =
     (let figure0 = setWidth width (Figure_setCaption caption (Figure_init imagePath position));
          figure = (if label \<noteq> [] then Figure_setLabel label figure0 else figure0)
      in addEnvironment (IsFigure figure) (addPackage ''graphicx'' [] d))"

definition addTable ::
  "string list \<Rightarrow> string \<Rightarrow> string \<Rightarrow> string \<Rightarrow> 'a Document_scheme \<Rightarrow> 'a Document_scheme" where
  "addTable headers caption label position d =
     (let table0 = Table_setCaption caption (Table_init headers position);
          table = (if label \<noteq> [] then Table_setLabel label table0 else table0)
      in addEnvironment (IsTable table) d)"

definition addList :: "ListType \<Rightarrow> 'a Document_scheme \<Rightarrow> 'a Document_scheme" where
  "addList type d = addEnvironment (IsList (List_init type)) d"

definition addEquation ::
  "string \<Rightarrow> string \<Rightarrow> bool \<Rightarrow> 'a Document_scheme \<Rightarrow> 'a Document_scheme" where
  "addEquation content label numbered d =
     (let equation0 = Equation_setContent content (Equation_init numbered);
          equation = (if label \<noteq> [] then Equation_setLabel label equation0 else equation0)
      in addEnvironment (IsEquation equation) (addPackage ''amsmath'' [] d))"

definition addInlineEquation :: "string \<Rightarrow> 'a Document_scheme \<Rightarrow> string \<times> 'a Document_scheme" where
  "addInlineEquation content d = (''$'' @ content @ ''$'', addPackage ''amsmath'' [] d)"

definition addAlgorithm :: "string \<Rightarrow> string \<Rightarrow> 'a Document_scheme \<Rightarrow> 'a Document_scheme" where
  "addAlgorithm caption label d =
     (let algorithm0 = Algorithm_init caption;
          algorithm = (if label \<noteq> [] then Algorithm_setLabel label algorithm0 else algorithm0)
      in addEnvironment (IsAlgorithm algorithm) (enableAlgorithms d))"

definition addTheorem ::
  "TheoremType \<Rightarrow> string \<Rightarrow> string \<Rightarrow> 'a Document_scheme \<Rightarrow> 'a Document_scheme" where
  "addTheorem type content title d =
     addEnvironment (IsTheoremEnvironment (TheoremEnvironment_init type content title))
       (enableTheorems d)"

fun languageConfiguration :: "Language \<Rightarrow> string" where
  "languageConfiguration ENGLISH = []"
| "languageConfiguration FRENCH = BS # ''frenchbsetup{StandardLayout=true}\<newline>''"
| "languageConfiguration GERMAN = BS # ''selectlanguage{ngerman}\<newline>''"
| "languageConfiguration SPANISH = BS # ''selectlanguage{spanish}\<newline>''"
| "languageConfiguration ITALIAN = BS # ''selectlanguage{italian}\<newline>''"
| "languageConfiguration PORTUGUESE = BS # ''selectlanguage{portuguese}\<newline>''"
| "languageConfiguration DUTCH = BS # ''selectlanguage{dutch}\<newline>''"
| "languageConfiguration RUSSIAN = BS # ''selectlanguage{russian}\<newline>''"
| "languageConfiguration CHINESE = BS # ''setCJKmainfont{SimSun}\<newline>''"
| "languageConfiguration JAPANESE = BS # ''setCJKmainfont{IPAMincho}\<newline>''"
| "languageConfiguration ARABIC = BS # ''setmainlanguage{arabic}\<newline>''"

definition getLanguageConfiguration :: "'a Document_scheme \<Rightarrow> string" where
  "getLanguageConfiguration d = languageConfiguration (m_language d)"

definition getDocumentClass :: "'a Document_scheme \<Rightarrow> string" where
  "getDocumentClass d =
     (case m_type d of
        ARTICLE \<Rightarrow> ''article'' | REPORT \<Rightarrow> ''report'' | BOOK \<Rightarrow> ''book''
      | PRESENTATION \<Rightarrow> ''beamer'')"

text \<open>One pass of the loop over the packages: the line of one entry of the map.\<close>

definition usepackage_line :: "string \<times> string \<Rightarrow> string" where
  "usepackage_line package =
     BS # ''usepackage''
     @ (if snd package \<noteq> [] then ''['' @ snd package @ '']'' else [])
     @ ''{'' @ fst package @ ''}\<newline>''"

text \<open>What \<^verbatim>\<open>Document::generatePreamble\<close> writes after the package list and the empty
  line that ends it.\<close>

definition Document_preamble_rest :: "'a Document_scheme \<Rightarrow> string" where
  "Document_preamble_rest d =
     getLanguageConfiguration d
     @ (if m_title d \<noteq> [] then BS # ''title{'' @ m_title d @ ''}\<newline>'' else [])
     @ (if m_author d \<noteq> [] then BS # ''author{'' @ m_author d @ ''}\<newline>'' else [])
     @ (if m_date d \<noteq> [] then BS # ''date{'' @ m_date d @ ''}\<newline>'' else [])
     @ (if m_theoremsEnabled d then getTheoremSetup (m_language d) else [])
     @ (if m_algorithmsEnabled d then getAlgorithmPackages else [])
     @ (if m_usedCitations d \<noteq> {} then getPreambleConfig (m_bibliography d) else [])
     @ concat (map (\<lambda>content. content @ ''\<newline>'') (m_customPreamble d))
     @ ''\<newline>''"

definition Document_generatePreamble :: "'a Document_scheme \<Rightarrow> string" where
  "Document_generatePreamble d =
     BS # ''documentclass{'' @ getDocumentClass d @ ''}\<newline>\<newline>''
     @ concat (map usepackage_line (m_packages d))
     @ ''\<newline>''
     @ Document_preamble_rest d"

text \<open>The three loops every body shares: raw content, sections, environments.\<close>

definition rawContent_block :: "'a Document_scheme \<Rightarrow> string" where
  "rawContent_block d = concat (map (\<lambda>content. content @ ''\<newline>\<newline>'') (m_rawContent d))"

definition sections_block :: "'a Document_scheme \<Rightarrow> string" where
  "sections_block d = concat (map (\<lambda>section. Section_generate section @ ''\<newline>'') (m_sections d))"

definition environments_block :: "'a Document_scheme \<Rightarrow> string" where
  "environments_block d =
     concat (map (\<lambda>env. generate_Environment env @ ''\<newline>'') (m_environments d))"

definition Document_generateDocument :: "'a Document_scheme \<Rightarrow> string" where
  "Document_generateDocument d =
     BS # ''begin{document}\<newline>\<newline>''
     @ (if m_title d \<noteq> [] then BS # ''maketitle\<newline>\<newline>'' else [])
     @ rawContent_block d
     @ sections_block d
     @ environments_block d
     @ (if m_usedCitations d \<noteq> {}
        then getIncludeCommands (m_bibliography d) [] @ ''\<newline>'' else [])
     @ BS # ''end{document}\<newline>''"

section \<open>Math-mode sanitization\<close>

definition mathEnvs :: "string list" where
  "mathEnvs =
     [BS # ''begin{equation}'', BS # ''end{equation}'',
      BS # ''begin{equation*}'', BS # ''end{equation*}'',
      BS # ''begin{align}'', BS # ''end{align}'',
      BS # ''begin{align*}'', BS # ''end{align*}'',
      ''$'', ''$$'']"

text \<open>The initializer list of the \<^verbatim>\<open>std::map\<close> of replacements, in the order of the
  source, and the map built from it: an element whose key is already there is not
  inserted.\<close>

definition replacements_init :: "(string \<times> string) list" where
  "replacements_init =
     [(CHR 0xC3 # [CHR 0xA9], BS # ''text{'' @ CHR 0xC3 # CHR 0xA9 # ''}''),
      (CHR 0xC3 # [CHR 0xA8], BS # ''text{'' @ CHR 0xC3 # CHR 0xA8 # ''}''),
      (CHR 0xC3 # [CHR 0xAA], BS # ''text{'' @ CHR 0xC3 # CHR 0xAA # ''}''),
      (CHR 0xC3 # [CHR 0xA0], BS # ''text{'' @ CHR 0xC3 # CHR 0xA0 # ''}''),
      (CHR 0xC3 # [CHR 0xB9], BS # ''text{'' @ CHR 0xC3 # CHR 0xB9 # ''}''),
      (CHR 0xC3 # [CHR 0xA7], BS # ''text{'' @ CHR 0xC3 # CHR 0xA7 # ''}''),
      (''Productivit'' @ CHR 0xC3 # [CHR 0xA9], BS # ''text{Productivit'' @ CHR 0xC3 # CHR 0xA9 # ''}''),
      (''Qualit'' @ CHR 0xC3 # [CHR 0xA9], BS # ''text{Qualit'' @ CHR 0xC3 # CHR 0xA9 # ''}''),
      (''Documents'', BS # ''text{Documents}''),
      (''Temps'', BS # ''text{Temps}'')]"

fun map_insert :: "string \<Rightarrow> 'v \<Rightarrow> (string \<times> 'v) list \<Rightarrow> (string \<times> 'v) list" where
  "map_insert k v [] = [(k, v)]"
| "map_insert k v ((k', v') # m) =
     (if k < k' then (k, v) # (k', v') # m
      else if k = k' then (k', v') # m
      else (k', v') # map_insert k v m)"

definition replacements :: "(string \<times> string) list" where
  "replacements = foldl (\<lambda>m (k, v). map_insert k v m) [] replacements_init"

text \<open>The inner \<^verbatim>\<open>while\<close> loop: every occurrence of \<open>key\<close> found from \<open>repPos\<close> on is
  replaced and the search goes on after the replacement. No key of the table is
  empty; an empty key, with which the loop of the source would not end, is left out.\<close>

function replace_all :: "string \<Rightarrow> string \<Rightarrow> string \<Rightarrow> nat \<Rightarrow> string" where
  "replace_all mathContent key val repPos =
     (if key = [] then mathContent
      else (case str_find mathContent key repPos of
              None \<Rightarrow> mathContent
            | Some p \<Rightarrow>
                replace_all (str_replace mathContent p (length key) val) key val
                  (p + length val)))"
  by pat_completeness auto

lemma find_in_bounds:
  "find_in pat s i = Some p \<Longrightarrow> i \<le> p \<and> p - i + length pat \<le> length s"
proof (induction s arbitrary: i)
  case Nil
  then show ?case by (simp split: if_splits)
next
  case (Cons c cs)
  show ?case
  proof (cases "take (length pat) (c # cs) = pat")
    case True
    then have "length (take (length pat) (c # cs)) = length pat" by simp
    then have "length pat \<le> length (c # cs)" by (simp only: length_take)
    with True Cons.prems show ?thesis by simp
  next
    case False
    with Cons.prems have "find_in pat cs (Suc i) = Some p" by simp
    from Cons.IH[OF this] show ?thesis by auto
  qed
qed

lemma str_find_bounds:
  assumes "str_find s pat pos = Some p"
  shows "pos \<le> p \<and> p + length pat \<le> length s"
proof -
  from assms have le: "pos \<le> length s" and f: "find_in pat (drop pos s) pos = Some p"
    by (auto simp: str_find_def split: if_splits)
  from find_in_bounds[OF f] le show ?thesis by auto
qed

termination replace_all
proof (relation "measure (\<lambda>(mathContent, key, val, repPos). length mathContent - repPos)")
  show "wf (measure (\<lambda>(mathContent, key, val, repPos). length mathContent - repPos))" by simp
next
  fix mathContent key val :: string and repPos p :: nat
  assume k: "key \<noteq> []" and f: "str_find mathContent key repPos = Some p"
  from str_find_bounds[OF f] k
  show "((str_replace mathContent p (length key) val, key, val, p + length val),
          mathContent, key, val, repPos)
        \<in> measure (\<lambda>(mathContent, key, val, repPos). length mathContent - repPos)"
    by (cases key) (auto simp: str_replace_def)
qed

declare replace_all.simps [simp del]

definition apply_replacements :: "string \<Rightarrow> string" where
  "apply_replacements mathContent =
     foldl (\<lambda>mc rep. replace_all mc (fst rep) (snd rep) 0) mathContent replacements"

text \<open>The span between \<open>startMathPos\<close> and \<open>pos\<close> after the replacements.
  \<open>startMathPos \<le> pos\<close> whenever \<open>inMathMode\<close> is set (it was set to an earlier
  position), so the \<^verbatim>\<open>size_t\<close> subtraction \<open>pos - startMathPos\<close> does not wrap.\<close>

definition sanitized_span :: "string \<Rightarrow> nat \<Rightarrow> nat \<Rightarrow> string" where
  "sanitized_span result startMathPos pos =
     apply_replacements (substr result startMathPos (pos - startMathPos))"

text \<open>The outer \<^verbatim>\<open>while\<close> loop. The \<^verbatim>\<open>for\<close> loop over the markers stops at the first one
  that stands at \<open>pos\<close>.\<close>

function sanitize_loop :: "string \<Rightarrow> nat \<Rightarrow> bool \<Rightarrow> nat \<Rightarrow> string" where
  "sanitize_loop result pos inMathMode startMathPos =
     (if pos < length result
      then (case List.find (compare_at result pos) mathEnvs of
              None \<Rightarrow> sanitize_loop result (pos + 1) inMathMode startMathPos
            | Some env \<Rightarrow>
                if \<not> inMathMode
                then sanitize_loop result (pos + length env) True (pos + length env)
                else sanitize_loop
                       (str_replace result startMathPos (pos - startMathPos)
                          (sanitized_span result startMathPos pos))
                       (startMathPos + length (sanitized_span result startMathPos pos)
                          + length env)
                       False startMathPos)
      else result)"
  by pat_completeness auto

lemma mathEnvs_nonempty: "env \<in> set mathEnvs \<Longrightarrow> env \<noteq> []"
  by (auto simp: mathEnvs_def)

lemma find_mathEnvs_nonempty:
  "List.find P mathEnvs = Some env \<Longrightarrow> 0 < length env"
  by (auto simp: mathEnvs_def split: if_splits)

termination sanitize_loop
proof (relation "measure (\<lambda>(result, pos, inMathMode, startMathPos). length result - pos)")
  show "wf (measure (\<lambda>(result, pos, inMathMode, startMathPos). length result - pos))" by simp
next
  fix result :: string and pos startMathPos :: nat and inMathMode :: bool
  assume "pos < length result"
  then show "((result, pos + 1, inMathMode, startMathPos), result, pos, inMathMode, startMathPos)
      \<in> measure (\<lambda>(result, pos, inMathMode, startMathPos). length result - pos)"
    by simp
next
  fix result env :: string and pos startMathPos :: nat and inMathMode :: bool
  assume "pos < length result" "List.find (compare_at result pos) mathEnvs = Some env"
  with find_mathEnvs_nonempty[of "compare_at result pos" env]
  have "length result - (pos + length env) < length result - pos" by arith
  then show "((result, pos + length env, True, pos + length env), result, pos, inMathMode, startMathPos)
      \<in> measure (\<lambda>(result, pos, inMathMode, startMathPos). length result - pos)"
    by simp
next
  fix result env :: string and pos startMathPos :: nat and inMathMode :: bool
  assume a: "pos < length result" "List.find (compare_at result pos) mathEnvs = Some env"
  from find_mathEnvs_nonempty[OF a(2)] have e: "0 < length env" .
  have "\<And>n m. 0 < n \<Longrightarrow>
      min (length result) startMathPos + (m + (length result - (startMathPos + (pos - startMathPos))))
        - (startMathPos + m + n) < length result - pos"
    using a(1) by arith
  from this[OF e]
  show "((str_replace result startMathPos (pos - startMathPos)
            (sanitized_span result startMathPos pos),
          startMathPos + length (sanitized_span result startMathPos pos) + length env,
          False, startMathPos),
         result, pos, inMathMode, startMathPos)
      \<in> measure (\<lambda>(result, pos, inMathMode, startMathPos). length result - pos)"
    by (simp add: str_replace_def)
qed

declare sanitize_loop.simps [simp del]

definition sanitizeMathContent :: "string \<Rightarrow> string" where
  "sanitizeMathContent content = sanitize_loop content 0 False 0"

section \<open>Article\<close>

text \<open>\<open>Article\<close> declares a member \<open>m_customPreamble\<close> of its own, which hides the
  one of \<open>Document\<close>: \<^verbatim>\<open>Article::addInPreamble\<close> and \<^verbatim>\<open>Article::generatePreamble\<close> use it.
  \<^verbatim>\<open>Article::generateDocument\<close> reads a member \<open>m_includeTableOfContents\<close> that the class
  as declared does not list and no method of \<open>Article\<close> sets; it is a field here.\<close>

record Article = Document +
  m_abstract_Article :: string
  m_customPreamble_Article :: "string list"
  m_keywords :: "string list"
  m_includeIndex_Article :: bool
  m_includeTableOfContents_Article :: bool

definition Article_init :: "string \<Rightarrow> string \<Rightarrow> string \<Rightarrow> Language \<Rightarrow> Article" where
  "Article_init title author date language =
     addPackage ''graphicx'' []
       (addPackage ''amsmath'' []
         (addPackage ''geometry'' ''margin=1in''
           (Document.extend (Document_init ARTICLE title author date language)
              (Article.fields [] [] [] False False))))"

definition Article_setAbstract :: "string \<Rightarrow> Article \<Rightarrow> Article" where
  "Article_setAbstract abstract a = a\<lparr>m_abstract_Article := abstract\<rparr>"

definition Article_addInPreamble :: "string \<Rightarrow> Article \<Rightarrow> Article" where
  "Article_addInPreamble content a =
     a\<lparr>m_customPreamble_Article := m_customPreamble_Article a @ [content]\<rparr>"

definition addKeyword :: "string \<Rightarrow> Article \<Rightarrow> Article" where
  "addKeyword keyword a = a\<lparr>m_keywords := m_keywords a @ [keyword]\<rparr>"

definition Article_includeIndex :: "bool \<Rightarrow> Article \<Rightarrow> Article" where
  "Article_includeIndex include a =
     (let a' = a\<lparr>m_includeIndex_Article := include\<rparr> in
      if include then addPackage ''imakeidx'' [] a' else a')"

text \<open>\<^verbatim>\<open>Article::setBibliography\<close> also writes a sample \<open>.bib\<close> file; the document keeps
  the bibliography.\<close>

definition Article_setBibliography :: "Bibliography \<Rightarrow> Article \<Rightarrow> Article" where
  "Article_setBibliography bibliography a = a\<lparr>m_bibliography := bibliography\<rparr>"

definition lstset_Article :: string where
  "lstset_Article =
       BS # ''lstset{\<newline>''
     @ ''  basicstyle='' @ BS # ''small'' @ BS # ''ttfamily,\<newline>''
     @ ''  keywordstyle='' @ BS # ''color{blue}'' @ BS # ''bfseries,\<newline>''
     @ ''  commentstyle='' @ BS # ''color{green!60!black}'' @ BS # ''itshape,\<newline>''
     @ ''  stringstyle='' @ BS # ''color{purple},\<newline>''
     @ ''  frame=single,\<newline>''
     @ ''  breaklines=true,\<newline>''
     @ ''  showstringspaces=false,\<newline>''
     @ ''  inputencoding=utf8,\<newline>''
     @ ''  extendedchars=true,\<newline>''
     @ ''  literate={'' @ CHR 0xC3 # CHR 0xA9 # ''}{{'' @ BS # CHR 0x27 # ''e}}1 {'' @ CHR 0xC3 # CHR 0xA8 # ''}{{'' @ BS # CHR 0x60 # ''e}}1 {'' @ CHR 0xC3 # CHR 0xAA # ''}{{'' @ BS # ''^e}}1 {'' @ CHR 0xC3 # CHR 0xAB # ''}{{'' @ BS # CHR 0x22 # ''e}}1\<newline>''
     @ ''           {'' @ CHR 0xC3 # CHR 0xA0 # ''}{{'' @ BS # CHR 0x60 # ''a}}1 {'' @ CHR 0xC3 # CHR 0xA2 # ''}{{'' @ BS # ''^a}}1 {'' @ CHR 0xC3 # CHR 0xA4 # ''}{{'' @ BS # CHR 0x22 # ''a}}1\<newline>''
     @ ''           {'' @ CHR 0xC3 # CHR 0xAE # ''}{{'' @ BS # ''^i}}1 {'' @ CHR 0xC3 # CHR 0xAF # ''}{{'' @ BS # CHR 0x22 # ''i}}1\<newline>''
     @ ''           {'' @ CHR 0xC3 # CHR 0xB4 # ''}{{'' @ BS # ''^o}}1 {'' @ CHR 0xC3 # CHR 0xB6 # ''}{{'' @ BS # CHR 0x22 # ''o}}1\<newline>''
     @ ''           {'' @ CHR 0xC3 # CHR 0xB9 # ''}{{'' @ BS # CHR 0x60 # ''u}}1 {'' @ CHR 0xC3 # CHR 0xBB # ''}{{'' @ BS # ''^u}}1 {'' @ CHR 0xC3 # CHR 0xBC # ''}{{'' @ BS # CHR 0x22 # ''u}}1\<newline>''
     @ ''           {'' @ CHR 0xC3 # CHR 0xA7 # ''}{{'' @ BS # ''c c}}1\<newline>''
     @ ''}\<newline>\<newline>''"

fun keywordsTitle :: "Language \<Rightarrow> string" where
  "keywordsTitle ENGLISH = ''Keywords:''"
| "keywordsTitle FRENCH = ''Mots-cl'' @ CHR 0xC3 # CHR 0xA9 # ''s:''"
| "keywordsTitle GERMAN = ''Schl'' @ CHR 0xC3 # CHR 0xBC # ''sselw'' @ CHR 0xC3 # CHR 0xB6 # ''rter:''"
| "keywordsTitle SPANISH = ''Palabras clave:''"
| "keywordsTitle ITALIAN = ''Parole chiave:''"
| "keywordsTitle PORTUGUESE = ''Palavras-chave:''"
| "keywordsTitle DUTCH = ''Trefwoorden:''"
| "keywordsTitle RUSSIAN = CHR 0xD0 # CHR 0x9A # CHR 0xD0 # CHR 0xBB # CHR 0xD1 # CHR 0x8E # CHR 0xD1 # CHR 0x87 # CHR 0xD0 # CHR 0xB5 # CHR 0xD0 # CHR 0xB2 # CHR 0xD1 # CHR 0x8B # CHR 0xD0 # CHR 0xB5 # '' '' @ CHR 0xD1 # CHR 0x81 # CHR 0xD0 # CHR 0xBB # CHR 0xD0 # CHR 0xBE # CHR 0xD0 # CHR 0xB2 # CHR 0xD0 # CHR 0xB0 # '':''"
| "keywordsTitle CHINESE = CHR 0xE5 # CHR 0x85 # CHR 0xB3 # CHR 0xE9 # CHR 0x94 # CHR 0xAE # CHR 0xE8 # CHR 0xAF # CHR 0x8D # '':''"
| "keywordsTitle JAPANESE = CHR 0xE3 # CHR 0x82 # CHR 0xAD # CHR 0xE3 # CHR 0x83 # CHR 0xBC # CHR 0xE3 # CHR 0x83 # CHR 0xAF # CHR 0xE3 # CHR 0x83 # CHR 0xBC # CHR 0xE3 # CHR 0x83 # CHR 0x89 # '':''"
| "keywordsTitle ARABIC = CHR 0xD8 # CHR 0xA7 # CHR 0xD9 # CHR 0x84 # CHR 0xD9 # CHR 0x83 # CHR 0xD9 # CHR 0x84 # CHR 0xD9 # CHR 0x85 # CHR 0xD8 # CHR 0xA7 # CHR 0xD8 # CHR 0xAA # '' '' @ CHR 0xD8 # CHR 0xA7 # CHR 0xD9 # CHR 0x84 # CHR 0xD9 # CHR 0x85 # CHR 0xD9 # CHR 0x81 # CHR 0xD8 # CHR 0xAA # CHR 0xD8 # CHR 0xA7 # CHR 0xD8 # CHR 0xAD # CHR 0xD9 # CHR 0x8A # CHR 0xD8 # CHR 0xA9 # '':''"

fun indexTitle :: "Language \<Rightarrow> string" where
  "indexTitle ENGLISH = ''Alphabetical Index''"
| "indexTitle FRENCH = ''Index alphab'' @ CHR 0xC3 # CHR 0xA9 # ''tique''"
| "indexTitle GERMAN = ''Alphabetischer Index''"
| "indexTitle SPANISH = CHR 0xC3 # CHR 0x8D # ''ndice alfab'' @ CHR 0xC3 # CHR 0xA9 # ''tico''"
| "indexTitle ITALIAN = ''Indice alfabetico''"
| "indexTitle PORTUGUESE = CHR 0xC3 # CHR 0x8D # ''ndice alfab'' @ CHR 0xC3 # CHR 0xA9 # ''tico''"
| "indexTitle DUTCH = ''Alfabetische index''"
| "indexTitle RUSSIAN = CHR 0xD0 # CHR 0x90 # CHR 0xD0 # CHR 0xBB # CHR 0xD1 # CHR 0x84 # CHR 0xD0 # CHR 0xB0 # CHR 0xD0 # CHR 0xB2 # CHR 0xD0 # CHR 0xB8 # CHR 0xD1 # CHR 0x82 # CHR 0xD0 # CHR 0xBD # CHR 0xD1 # CHR 0x8B # CHR 0xD0 # CHR 0xB9 # '' '' @ CHR 0xD1 # CHR 0x83 # CHR 0xD0 # CHR 0xBA # CHR 0xD0 # CHR 0xB0 # CHR 0xD0 # CHR 0xB7 # CHR 0xD0 # CHR 0xB0 # CHR 0xD1 # CHR 0x82 # CHR 0xD0 # CHR 0xB5 # CHR 0xD0 # CHR 0xBB # CHR 0xD1 # [CHR 0x8C]"
| "indexTitle CHINESE = CHR 0xE7 # CHR 0xB4 # CHR 0xA2 # CHR 0xE5 # CHR 0xBC # [CHR 0x95]"
| "indexTitle JAPANESE = CHR 0xE7 # CHR 0xB4 # CHR 0xA2 # CHR 0xE5 # CHR 0xBC # [CHR 0x95]"
| "indexTitle ARABIC = CHR 0xD9 # CHR 0x81 # CHR 0xD9 # CHR 0x87 # CHR 0xD8 # CHR 0xB1 # CHR 0xD8 # [CHR 0xB3]"

definition makeindex_line :: "Language \<Rightarrow> string" where
  "makeindex_line language =
     BS # ''makeindex[columns=2, title='' @ indexTitle language @ '', intoc]\<newline>\<newline>''"

definition Article_generatePreamble :: "Article \<Rightarrow> string" where
  "Article_generatePreamble a =
     Document_generatePreamble a
     @ lstset_Article
     @ concat (map (\<lambda>content. content @ ''\<newline>'') (m_customPreamble_Article a))
     @ (if m_keywords a \<noteq> []
        then BS # ''providecommand{'' @ BS # ''keywords}[1]{'' @ BS # ''par'' @ BS # ''noindent''
             @ BS # ''textbf{'' @ keywordsTitle (m_language a) @ ''} #1}\<newline>\<newline>''
        else [])
     @ (if m_includeIndex_Article a then makeindex_line (m_language a) else [])"

text \<open>The loop over the keywords, from index \<open>i\<close> on.\<close>

function keywords_loop :: "string list \<Rightarrow> nat \<Rightarrow> string" where
  "keywords_loop keywords i =
     (if i < length keywords
      then keywords ! i @ (if i < size_t_sub (length keywords) 1 then '', '' else [])
           @ keywords_loop keywords (i + 1)
      else [])"
  by pat_completeness auto
termination
  by (relation "measure (\<lambda>(keywords, i). length keywords - i)") auto

declare keywords_loop.simps [simp del]

text \<open>The title block of \<^verbatim>\<open>Article::generateDocument\<close>: the keywords are written inside
  the test for a title.\<close>

definition Article_title_block :: "Article \<Rightarrow> string" where
  "Article_title_block a =
     (if m_title a \<noteq> []
      then BS # ''maketitle\<newline>\<newline>''
           @ (if m_keywords a \<noteq> []
              then BS # ''keywords{'' @ keywords_loop (m_keywords a) 0 @ ''}\<newline>\<newline>''
              else [])
      else [])"

definition abstract_block :: "string \<Rightarrow> string" where
  "abstract_block abstract =
     (if abstract \<noteq> []
      then BS # ''begin{abstract}\<newline>'' @ abstract @ ''\<newline>'' @ BS # ''end{abstract}\<newline>\<newline>''
      else [])"

definition Article_generateDocument :: "Article \<Rightarrow> string" where
  "Article_generateDocument a =
     BS # ''begin{document}\<newline>\<newline>''
     @ Article_title_block a
     @ abstract_block (m_abstract_Article a)
     @ (if m_includeTableOfContents_Article a
        then BS # ''tableofcontents\<newline>'' @ BS # ''clearpage\<newline>\<newline>'' else [])
     @ rawContent_block a
     @ sections_block a
     @ environments_block a
     @ (if m_usedCitations a \<noteq> {}
        then getIncludeCommands (m_bibliography a) [] @ ''\<newline>'' else [])
     @ BS # ''end{document}\<newline>''"

section \<open>Report\<close>

record Report = Document +
  m_abstract_Report :: string
  m_includeTableOfContents_Report :: bool
  m_includeListOfFigures_Report :: bool
  m_includeListOfTables_Report :: bool

definition Report_init :: "string \<Rightarrow> string \<Rightarrow> string \<Rightarrow> Language \<Rightarrow> Report" where
  "Report_init title author date language =
     addPackage ''tocloft'' []
       (addPackage ''hyperref'' []
         (addPackage ''graphicx'' []
           (addPackage ''amsmath'' []
             (addPackage ''geometry'' ''margin=1in''
               (Document.extend (Document_init REPORT title author date language)
                  (Report.fields [] False False False))))))"

definition Report_setAbstract :: "string \<Rightarrow> Report \<Rightarrow> Report" where
  "Report_setAbstract abstract r = r\<lparr>m_abstract_Report := abstract\<rparr>"

definition Report_includeTableOfContents :: "bool \<Rightarrow> Report \<Rightarrow> Report" where
  "Report_includeTableOfContents include r = r\<lparr>m_includeTableOfContents_Report := include\<rparr>"

definition Report_includeListOfFigures :: "bool \<Rightarrow> Report \<Rightarrow> Report" where
  "Report_includeListOfFigures include r = r\<lparr>m_includeListOfFigures_Report := include\<rparr>"

definition Report_includeListOfTables :: "bool \<Rightarrow> Report \<Rightarrow> Report" where
  "Report_includeListOfTables include r = r\<lparr>m_includeListOfTables_Report := include\<rparr>"

definition Report_generatePreamble :: "Report \<Rightarrow> string" where
  "Report_generatePreamble r = Document_generatePreamble r"

definition Report_generateDocument :: "Report \<Rightarrow> string" where
  "Report_generateDocument r =
     BS # ''begin{document}\<newline>\<newline>''
     @ (if m_title r \<noteq> [] then BS # ''maketitle\<newline>\<newline>'' else [])
     @ abstract_block (m_abstract_Report r)
     @ (if m_includeTableOfContents_Report r
        then BS # ''tableofcontents\<newline>'' @ BS # ''clearpage\<newline>\<newline>'' else [])
     @ (if m_includeListOfFigures_Report r
        then BS # ''listoffigures\<newline>'' @ BS # ''clearpage\<newline>\<newline>'' else [])
     @ (if m_includeListOfTables_Report r
        then BS # ''listoftables\<newline>'' @ BS # ''clearpage\<newline>\<newline>'' else [])
     @ rawContent_block r
     @ sections_block r
     @ environments_block r
     @ BS # ''end{document}\<newline>''"

section \<open>Book\<close>

text \<open>\<open>m_currentPart\<close> is a C++ \<^verbatim>\<open>int\<close> (32 bits); the chapters of the parts are a
  \<^verbatim>\<open>std::map\<close> from the index of a part, only looked up by key.\<close>

record Book = Document +
  m_abstract_Book :: string
  m_includeTableOfContents_Book :: bool
  m_includeListOfFigures_Book :: bool
  m_includeListOfTables_Book :: bool
  m_includeIndex_Book :: bool
  m_parts :: "string list"
  m_partChapters :: "nat \<rightharpoonup> Section list"
  m_appendices :: "Section list"
  m_currentPart :: int

definition Book_init :: "string \<Rightarrow> string \<Rightarrow> string \<Rightarrow> Language \<Rightarrow> Book" where
  "Book_init title author date language =
     addPackage ''bookmark'' []
       (addPackage ''tocloft'' []
         (addPackage ''hyperref'' []
           (addPackage ''graphicx'' []
             (addPackage ''amsmath'' []
               (addPackage ''geometry'' ''margin=1in''
                 (Document.extend (Document_init BOOK title author date language)
                    (Book.fields [] False False False False [] Map.empty [] (- 1))))))))"

definition Book_setAbstract :: "string \<Rightarrow> Book \<Rightarrow> Book" where
  "Book_setAbstract abstract b = b\<lparr>m_abstract_Book := abstract\<rparr>"

definition Book_includeTableOfContents :: "bool \<Rightarrow> Book \<Rightarrow> Book" where
  "Book_includeTableOfContents include b = b\<lparr>m_includeTableOfContents_Book := include\<rparr>"

definition Book_includeListOfFigures :: "bool \<Rightarrow> Book \<Rightarrow> Book" where
  "Book_includeListOfFigures include b = b\<lparr>m_includeListOfFigures_Book := include\<rparr>"

definition Book_includeListOfTables :: "bool \<Rightarrow> Book \<Rightarrow> Book" where
  "Book_includeListOfTables include b = b\<lparr>m_includeListOfTables_Book := include\<rparr>"

definition Book_includeIndex :: "bool \<Rightarrow> Book \<Rightarrow> Book" where
  "Book_includeIndex include b =
     (let b' = b\<lparr>m_includeIndex_Book := include\<rparr> in
      if include then addPackage ''imakeidx'' [] b' else b')"

text \<open>The conversion of a \<^verbatim>\<open>size_t\<close> to \<^verbatim>\<open>int\<close>: the low 32 bits, read as signed.\<close>

definition int_of_size_t :: "nat \<Rightarrow> int" where
  "int_of_size_t n =
     (let m = int n mod 2 ^ 32 in if m < 2 ^ 31 then m else m - 2 ^ 32)"

definition addPart :: "string \<Rightarrow> Book \<Rightarrow> Book" where
  "addPart title b =
     (let b' = b\<lparr>m_parts := m_parts b @ [title]\<rparr> in
      b'\<lparr>m_currentPart := int_of_size_t (size_t_sub (length (m_parts b')) 1)\<rparr>)"

text \<open>In \<^verbatim>\<open>m_currentPart < m_parts.size()\<close> the \<^verbatim>\<open>int\<close> is converted to \<^verbatim>\<open>size_t\<close>; it is
  not negative there. \<^verbatim>\<open>m_partChapters[m_currentPart]\<close> makes an empty vector for a key
  that is not in the map.\<close>

definition addChapterToPart :: "Section \<Rightarrow> Book \<Rightarrow> Book" where
  "addChapterToPart chapter b =
     (if 0 \<le> m_currentPart b \<and> nat (m_currentPart b) < length (m_parts b)
      then b\<lparr>m_partChapters := (m_partChapters b)
               (nat (m_currentPart b) \<mapsto>
                  (case m_partChapters b (nat (m_currentPart b)) of
                     None \<Rightarrow> [] | Some chapters \<Rightarrow> chapters) @ [chapter])\<rparr>
      else b)"

definition addAppendix :: "Section \<Rightarrow> Book \<Rightarrow> Book" where
  "addAppendix appendix b = b\<lparr>m_appendices := m_appendices b @ [appendix]\<rparr>"

text \<open>What the constructor and \<open>addPart\<close> keep true of \<open>m_currentPart\<close>: it is the
  index of the last part, and \<open>-1\<close> when there is none.\<close>

definition Book_inv :: "Book \<Rightarrow> bool" where
  "Book_inv b = (m_currentPart b = int (length (m_parts b)) - 1)"

definition Book_generatePreamble :: "Book \<Rightarrow> string" where
  "Book_generatePreamble b =
     Document_generatePreamble b
     @ (if m_includeIndex_Book b then makeindex_line (m_language b) else [])
     @ BS # ''providecommand{'' @ BS # ''abstractname}{Abstract}\<newline>''
     @ BS # ''ifdefined'' @ BS # ''abstract'' @ BS # ''else\<newline>''
     @ ''  '' @ BS # ''newenvironment{abstract}{'' @ BS # ''chapter*{'' @ BS # ''abstractname}}{}\<newline>''
     @ BS # ''fi\<newline>''"

text \<open>One pass of the loop over the parts, at index \<open>i\<close>, and the whole loop.\<close>

definition Book_part :: "Book \<Rightarrow> nat \<Rightarrow> string" where
  "Book_part b i =
     BS # ''part{'' @ m_parts b ! i @ ''}\<newline>\<newline>''
     @ (case m_partChapters b i of
          Some chapters \<Rightarrow> concat (map (\<lambda>chapter. Section_generate chapter @ ''\<newline>'') chapters)
        | None \<Rightarrow> [])"

definition Book_parts :: "Book \<Rightarrow> string" where
  "Book_parts b = concat (map (Book_part b) [0 ..< length (m_parts b)])"

definition Book_generateDocument :: "Book \<Rightarrow> string" where
  "Book_generateDocument b =
     BS # ''begin{document}\<newline>\<newline>''
     @ BS # ''maketitle\<newline>\<newline>''
     @ abstract_block (m_abstract_Book b)
     @ (if m_includeTableOfContents_Book b then BS # ''tableofcontents\<newline>\<newline>'' else [])
     @ (if m_includeListOfFigures_Book b then BS # ''listoffigures\<newline>\<newline>'' else [])
     @ (if m_includeListOfTables_Book b then BS # ''listoftables\<newline>\<newline>'' else [])
     @ Book_parts b
     @ sections_block b
     @ environments_block b
     @ rawContent_block b
     @ (if m_appendices b \<noteq> []
        then BS # ''appendix\<newline>\<newline>''
             @ concat (map (\<lambda>appendix. Section_generate appendix @ ''\<newline>'') (m_appendices b))
        else [])
     @ (if m_includeIndex_Book b then BS # ''printindex\<newline>\<newline>'' else [])
     @ BS # ''end{document}\<newline>''"

section \<open>Presentation\<close>

datatype Theme =
  DEFAULT_Theme | BERKELEY | MADRID | ANTIBES | COPENHAGEN | BERLIN | MANHATTAN | WARSAW
  | SINGAPORE

datatype ColorTheme =
  DEFAULT_ColorTheme | BEAVER | CRANE | DOLPHIN | DOVE | FLY | SEAGULL | WOLVERINE

datatype Transition = NONE | FADE | PUSH | COVER | UNCOVER | SPLIT | BLINDS | WIPE

record Presentation = Document +
  m_institute :: string
  m_subtitle :: string
  m_theme :: Theme
  m_colorTheme :: ColorTheme
  m_transition :: Transition
  m_showNavigation :: bool
  m_slides :: "(string \<times> string list) list"
  m_structure :: "(Level \<times> string \<times> bool) list"

definition Presentation_init ::
  "string \<Rightarrow> string \<Rightarrow> string \<Rightarrow> Language \<Rightarrow> Theme \<Rightarrow> ColorTheme \<Rightarrow> Presentation" where
  "Presentation_init title author date language theme colorTheme =
     addPackage ''xcolor'' []
       (addPackage ''listings'' []
         (addPackage ''hyperref'' []
           (addPackage ''graphicx'' []
             (Document.extend (Document_init PRESENTATION title author date language)
                (Presentation.fields [] [] theme colorTheme NONE True [] [])))))"

definition setInstitute :: "string \<Rightarrow> Presentation \<Rightarrow> Presentation" where
  "setInstitute institute p = p\<lparr>m_institute := institute\<rparr>"

definition setSubtitle :: "string \<Rightarrow> Presentation \<Rightarrow> Presentation" where
  "setSubtitle subtitle p = p\<lparr>m_subtitle := subtitle\<rparr>"

definition setTheme :: "Theme \<Rightarrow> Presentation \<Rightarrow> Presentation" where
  "setTheme theme p = p\<lparr>m_theme := theme\<rparr>"

definition setColorTheme :: "ColorTheme \<Rightarrow> Presentation \<Rightarrow> Presentation" where
  "setColorTheme colorTheme p = p\<lparr>m_colorTheme := colorTheme\<rparr>"

definition setNavigation :: "bool \<Rightarrow> Presentation \<Rightarrow> Presentation" where
  "setNavigation show_it p = p\<lparr>m_showNavigation := show_it\<rparr>"

definition setTransition :: "Transition \<Rightarrow> Presentation \<Rightarrow> Presentation" where
  "setTransition transition p = p\<lparr>m_transition := transition\<rparr>"

text \<open>The two overloads of \<^verbatim>\<open>addSlide\<close>: a list of content lines, or one line.\<close>

definition addSlide :: "string \<Rightarrow> string list \<Rightarrow> Presentation \<Rightarrow> Presentation" where
  "addSlide title content p = p\<lparr>m_slides := m_slides p @ [(title, content)]\<rparr>"

definition addSlide_line :: "string \<Rightarrow> string \<Rightarrow> Presentation \<Rightarrow> Presentation" where
  "addSlide_line title content p = p\<lparr>m_slides := m_slides p @ [(title, [content])]\<rparr>"

definition Presentation_addSection :: "string \<Rightarrow> bool \<Rightarrow> Presentation \<Rightarrow> Presentation" where
  "Presentation_addSection title createFrame p =
     p\<lparr>m_structure := m_structure p @ [(SECTION, title, createFrame)]\<rparr>"

definition addSubsection :: "string \<Rightarrow> bool \<Rightarrow> Presentation \<Rightarrow> Presentation" where
  "addSubsection title createFrame p =
     p\<lparr>m_structure := m_structure p @ [(SUBSECTION, title, createFrame)]\<rparr>"

definition addSubsubsection :: "string \<Rightarrow> bool \<Rightarrow> Presentation \<Rightarrow> Presentation" where
  "addSubsubsection title createFrame p =
     p\<lparr>m_structure := m_structure p @ [(SUBSUBSECTION, title, createFrame)]\<rparr>"

fun getThemeName :: "Theme \<Rightarrow> string" where
  "getThemeName BERKELEY = ''Berkeley''"
| "getThemeName MADRID = ''Madrid''"
| "getThemeName ANTIBES = ''Antibes''"
| "getThemeName COPENHAGEN = ''Copenhagen''"
| "getThemeName BERLIN = ''Berlin''"
| "getThemeName MANHATTAN = ''Manhattan''"
| "getThemeName WARSAW = ''Warsaw''"
| "getThemeName SINGAPORE = ''Singapore''"
| "getThemeName DEFAULT_Theme = ''default''"

fun getColorThemeName :: "ColorTheme \<Rightarrow> string" where
  "getColorThemeName BEAVER = ''beaver''"
| "getColorThemeName CRANE = ''crane''"
| "getColorThemeName DOLPHIN = ''dolphin''"
| "getColorThemeName DOVE = ''dove''"
| "getColorThemeName FLY = ''fly''"
| "getColorThemeName SEAGULL = ''seagull''"
| "getColorThemeName WOLVERINE = ''wolverine''"
| "getColorThemeName DEFAULT_ColorTheme = ''default''"

fun getTransitionName :: "Transition \<Rightarrow> string" where
  "getTransitionName FADE = ''transparent''"
| "getTransitionName PUSH = ''push''"
| "getTransitionName COVER = ''dynamic''"
| "getTransitionName UNCOVER = ''invisible''"
| "getTransitionName SPLIT = ''split''"
| "getTransitionName BLINDS = ''dynamic''"
| "getTransitionName WIPE = ''dynamic''"
| "getTransitionName NONE = ''invisible''"

fun getLevelCommand :: "Level \<Rightarrow> string" where
  "getLevelCommand SECTION = BS # ''section''"
| "getLevelCommand SUBSECTION = BS # ''subsection''"
| "getLevelCommand SUBSUBSECTION = BS # ''subsubsection''"
| "getLevelCommand CHAPTER = BS # ''section''"

definition lstset_Presentation :: string where
  "lstset_Presentation =
       BS # ''lstset{\<newline>''
     @ ''  basicstyle='' @ BS # ''small'' @ BS # ''ttfamily,\<newline>''
     @ ''  breaklines=true,\<newline>''
     @ ''  inputencoding=utf8,\<newline>''
     @ ''  extendedchars=true,\<newline>''
     @ ''  literate={'' @ CHR 0xC3 # CHR 0xA9 # ''}{{'' @ BS # CHR 0x27 # ''e}}1 {'' @ CHR 0xC3 # CHR 0xA8 # ''}{{'' @ BS # CHR 0x60 # ''e}}1 {'' @ CHR 0xC3 # CHR 0xAA # ''}{{'' @ BS # ''^e}}1 {'' @ CHR 0xC3 # CHR 0xAB # ''}{{'' @ BS # CHR 0x22 # ''e}}1\<newline>''
     @ ''           {'' @ CHR 0xC3 # CHR 0xA0 # ''}{{'' @ BS # CHR 0x60 # ''a}}1 {'' @ CHR 0xC3 # CHR 0xA2 # ''}{{'' @ BS # ''^a}}1 {'' @ CHR 0xC3 # CHR 0xA4 # ''}{{'' @ BS # CHR 0x22 # ''a}}1\<newline>''
     @ ''           {'' @ CHR 0xC3 # CHR 0xAE # ''}{{'' @ BS # ''^i}}1 {'' @ CHR 0xC3 # CHR 0xAF # ''}{{'' @ BS # CHR 0x22 # ''i}}1\<newline>''
     @ ''           {'' @ CHR 0xC3 # CHR 0xB4 # ''}{{'' @ BS # ''^o}}1 {'' @ CHR 0xC3 # CHR 0xB6 # ''}{{'' @ BS # CHR 0x22 # ''o}}1\<newline>''
     @ ''           {'' @ CHR 0xC3 # CHR 0xB9 # ''}{{'' @ BS # CHR 0x60 # ''u}}1 {'' @ CHR 0xC3 # CHR 0xBB # ''}{{'' @ BS # ''^u}}1 {'' @ CHR 0xC3 # CHR 0xBC # ''}{{'' @ BS # CHR 0x22 # ''u}}1\<newline>''
     @ ''           {'' @ CHR 0xC3 # CHR 0xA7 # ''}{{'' @ BS # ''c c}}1\<newline>''
     @ ''}\<newline>\<newline>''"


text \<open>What \<^verbatim>\<open>Presentation::generatePreamble\<close> writes after the package list and the
  empty line that ends it.\<close>

definition Presentation_preamble_rest :: "Presentation \<Rightarrow> string" where
  "Presentation_preamble_rest p =
     lstset_Presentation
     @ getLanguageConfiguration p
     @ (if m_theme p \<noteq> DEFAULT_Theme
        then BS # ''usetheme{'' @ getThemeName (m_theme p) @ ''}\<newline>'' else [])
     @ (if m_colorTheme p \<noteq> DEFAULT_ColorTheme
        then BS # ''usecolortheme{'' @ getColorThemeName (m_colorTheme p) @ ''}\<newline>'' else [])
     @ (if m_transition p \<noteq> NONE
        then BS # ''setbeamercovered{'' @ getTransitionName (m_transition p) @ ''}\<newline>'' else [])
     @ (if \<not> m_showNavigation p
        then BS # ''setbeamertemplate{navigation symbols}{}\<newline>'' else [])
     @ (if m_title p \<noteq> [] then BS # ''title{'' @ m_title p @ ''}\<newline>'' else [])
     @ (if m_subtitle p \<noteq> [] then BS # ''subtitle{'' @ m_subtitle p @ ''}\<newline>'' else [])
     @ (if m_author p \<noteq> [] then BS # ''author{'' @ m_author p @ ''}\<newline>'' else [])
     @ (if m_institute p \<noteq> [] then BS # ''institute{'' @ m_institute p @ ''}\<newline>'' else [])
     @ (if m_date p \<noteq> [] then BS # ''date{'' @ m_date p @ ''}\<newline>'' else [])
     @ ''\<newline>''"

definition Presentation_generatePreamble :: "Presentation \<Rightarrow> string" where
  "Presentation_generatePreamble p =
     BS # ''documentclass{beamer}\<newline>\<newline>''
     @ concat (map usepackage_line (m_packages p))
     @ ''\<newline>''
     @ Presentation_preamble_rest p"

text \<open>One pass of the loop over the structure markers.\<close>

definition Presentation_structureItem :: "Level \<times> string \<times> bool \<Rightarrow> string" where
  "Presentation_structureItem structureItem =
     (case structureItem of (level, title, createFrame) \<Rightarrow>
        getLevelCommand level @ ''{'' @ title @ ''}\<newline>\<newline>''
        @ (if createFrame
           then BS # ''begin{frame}\<newline>'' @ [BS]
                @ (case level of
                     SECTION \<Rightarrow> ''sectionpage''
                   | SUBSECTION \<Rightarrow> ''subsectionpage''
                   | _ \<Rightarrow> ''begin{center}'' @ BS # ''Large '' @ title @ BS # ''end{center}'')
                @ ''\<newline>'' @ BS # ''end{frame}\<newline>\<newline>''
           else []))"

text \<open>The search for the code-listing marker in the content lines of a slide: the loop
  stops at the first line that holds it.\<close>

definition lstlisting_marker :: string where
  "lstlisting_marker = BS # ''begin{lstlisting}''"

fun needsFragile :: "string list \<Rightarrow> bool" where
  "needsFragile [] = False"
| "needsFragile (content # rest) =
     (if str_find content lstlisting_marker 0 \<noteq> None then True else needsFragile rest)"

text \<open>One pass of the loop over the slides.\<close>

definition Presentation_slide :: "string \<times> string list \<Rightarrow> string" where
  "Presentation_slide slide =
     (if needsFragile (snd slide)
      then BS # ''begin{frame}[fragile]{'' @ fst slide @ ''}\<newline>''
      else BS # ''begin{frame}{'' @ fst slide @ ''}\<newline>'')
     @ concat (map (\<lambda>content. content @ ''\<newline>'') (snd slide))
     @ BS # ''end{frame}\<newline>\<newline>''"

text \<open>One pass of the loop over the sections of the document: the title is read back
  from the generated text, between the first \<open>{\<close> and the first \<open>}\<close>; the text after
  that \<open>}\<close> goes through the math sanitization. \<^verbatim>\<open>npos + 1\<close> wraps to \<open>0\<close>.\<close>

definition Presentation_section :: "Section \<Rightarrow> string" where
  "Presentation_section section =
     (let sectionContent = Section_generate section;
          startPos = str_find sectionContent ''{'' 0;
          endPos = str_find sectionContent ''}'' 0;
          title = (case startPos of
                     Some sp \<Rightarrow>
                       (case endPos of
                          Some ep \<Rightarrow> substr sectionContent (sp + 1)
                                       (size_t_sub (size_t_sub ep sp) 1)
                        | None \<Rightarrow> ''Section'')
                   | None \<Rightarrow> ''Section'');
          content = sanitizeMathContent
                      (substr_from sectionContent
                         (case endPos of Some ep \<Rightarrow> ep + 1 | None \<Rightarrow> 0))
      in BS # ''section{'' @ title @ ''}\<newline>\<newline>''
         @ BS # ''begin{frame}{'' @ title @ ''}\<newline>''
         @ content
         @ BS # ''end{frame}\<newline>\<newline>'')"

text \<open>One pass of the loop over the environments of the document.\<close>

definition Presentation_environment :: "AnyEnvironment \<Rightarrow> string" where
  "Presentation_environment env =
     (let envContent = generate_Environment env in
      (if str_find envContent lstlisting_marker 0 \<noteq> None
       then BS # ''begin{frame}[fragile]\<newline>''
       else BS # ''begin{frame}\<newline>'')
      @ envContent @ ''\<newline>''
      @ BS # ''end{frame}\<newline>\<newline>'')"

text \<open>What \<^verbatim>\<open>Presentation::generateDocument\<close> writes before the slides and after them.\<close>

definition Presentation_before_slides :: "Presentation \<Rightarrow> string" where
  "Presentation_before_slides p =
     BS # ''begin{document}\<newline>\<newline>''
     @ (if m_title p \<noteq> []
        then BS # ''begin{frame}\<newline>'' @ BS # ''titlepage\<newline>'' @ BS # ''end{frame}\<newline>\<newline>''
        else [])
     @ BS # ''begin{frame}{Plan}\<newline>'' @ BS # ''tableofcontents\<newline>''
     @ BS # ''end{frame}\<newline>\<newline>''
     @ rawContent_block p
     @ concat (map Presentation_structureItem (m_structure p))"

definition Presentation_after_slides :: "Presentation \<Rightarrow> string" where
  "Presentation_after_slides p =
     concat (map Presentation_section (m_sections p))
     @ concat (map Presentation_environment (m_environments p))
     @ BS # ''end{document}\<newline>''"

definition Presentation_generateDocument :: "Presentation \<Rightarrow> string" where
  "Presentation_generateDocument p =
     Presentation_before_slides p
     @ concat (map Presentation_slide (m_slides p))
     @ Presentation_after_slides p"

section \<open>The document of any class\<close>

text \<open>\<^verbatim>\<open>generatePreamble\<close> and \<^verbatim>\<open>generateDocument\<close> are virtual and every class but
  \<open>Document\<close> overrides both; \<^verbatim>\<open>generate\<close> is the one of \<open>Document\<close> for all of them. The
  three are \<^verbatim>\<open>const\<close> methods: \<open>generate\<close> returns the text and leaves the object as
  it was, which the second component of its result says.\<close>

datatype AnyDocument =
    IsDocument Document
  | IsArticle Article
  | IsReport Report
  | IsBook Book
  | IsPresentation Presentation

fun generatePreamble :: "AnyDocument \<Rightarrow> string" where
  "generatePreamble (IsDocument d) = Document_generatePreamble d"
| "generatePreamble (IsArticle a) = Article_generatePreamble a"
| "generatePreamble (IsReport r) = Report_generatePreamble r"
| "generatePreamble (IsBook b) = Book_generatePreamble b"
| "generatePreamble (IsPresentation p) = Presentation_generatePreamble p"

fun generateDocument :: "AnyDocument \<Rightarrow> string" where
  "generateDocument (IsDocument d) = Document_generateDocument d"
| "generateDocument (IsArticle a) = Article_generateDocument a"
| "generateDocument (IsReport r) = Report_generateDocument r"
| "generateDocument (IsBook b) = Book_generateDocument b"
| "generateDocument (IsPresentation p) = Presentation_generateDocument p"

definition generate :: "AnyDocument \<Rightarrow> string \<times> AnyDocument" where
  "generate d = (generatePreamble d @ generateDocument d, d)"

section \<open>Properties of the table renderer\<close>

lemma size_t_sub_one: "0 < n \<Longrightarrow> n < 2 ^ 64 \<Longrightarrow> size_t_sub n 1 = n - 1"
proof -
  assume a: "0 < n" "n < 2 ^ 64"
  then have "n + 2 ^ 64 - 1 = (n - 1) + 1 * 2 ^ 64" by simp
  then have "(n + 2 ^ 64 - 1) mod 2 ^ 64 = (n - 1) mod 2 ^ 64"
    by (simp only: mod_mult_self1)
  also have "\<dots> = n - 1" using a by simp
  finally show ?thesis by (simp add: size_t_sub_def)
qed

lemma colspec_loop_eq: "colspec_loop numCols i = concat (replicate (numCols - i) ''|c'')"
proof (induction numCols i rule: colspec_loop.induct)
  case (1 numCols i)
  show ?case
  proof (cases "i < numCols")
    case True
    then have "numCols - i = Suc (numCols - (i + 1))" by simp
    with 1 True show ?thesis by (subst colspec_loop.simps) simp
  next
    case False
    then show ?thesis by (subst colspec_loop.simps) simp
  qed
qed

lemma join_Cons: "join sep (x # xs) = x @ (if xs = [] then [] else sep @ join sep xs)"
  by (cases xs) simp_all

lemma row_loop_eq:
  assumes "numCols < 2 ^ 64"
  shows "row_loop row numCols i =
     join '' & '' (take (numCols - i) (drop i row))
     @ (if i < length row \<and> length row < numCols then '' & '' else [])"
  using assms
proof (induction row numCols i rule: row_loop.induct)
  case (1 row numCols i)
  show ?case
  proof (cases "i < length row \<and> i < numCols")
    case False
    then show ?thesis by (subst row_loop.simps) auto
  next
    case True
    then have sub: "size_t_sub numCols 1 = numCols - 1"
      using 1(2) size_t_sub_one[of numCols] by simp
    have IH: "row_loop row numCols (i + 1) =
       join '' & '' (take (numCols - (i + 1)) (drop (i + 1) row))
       @ (if i + 1 < length row \<and> length row < numCols then '' & '' else [])"
      using 1 True by simp
    have d: "drop i row = row ! i # drop (i + 1) row"
      using True by (simp add: Cons_nth_drop_Suc)
    have t: "take (numCols - i) (drop i row)
        = row ! i # take (numCols - (i + 1)) (drop (i + 1) row)"
    proof -
      have "numCols - i = Suc (numCols - (i + 1))" using True by arith
      then show ?thesis using d by simp
    qed
    show ?thesis
      apply (subst row_loop.simps)
      apply (simp only: True if_True sub IH t join_Cons)
      using True apply auto
      done
  qed
qed

lemma header_loop_row_loop:
  "numCols \<le> length headers \<Longrightarrow> header_loop headers numCols i = row_loop headers numCols i"
proof (induction headers numCols i rule: header_loop.induct)
  case (1 headers numCols i)
  show ?case
  proof (cases "i < numCols")
    case True
    with 1 show ?thesis
      by (subst header_loop.simps, subst row_loop.simps) simp
  next
    case False
    then show ?thesis
      by (subst header_loop.simps, subst row_loop.simps) simp
  qed
qed

lemma header_loop_eq:
  assumes "length headers < 2 ^ 64"
  shows "header_loop headers (length headers) 0 = join '' & '' headers"
  using assms by (simp add: header_loop_row_loop row_loop_eq)

lemma Table_row_line_eq:
  assumes "numCols < 2 ^ 64"
  shows "Table_row_line numCols row =
     join '' & '' (take (min (length row) numCols) row)
     @ (if row \<noteq> [] \<and> length row < numCols then '' & '' else [])
     @ row_terminator"
  using assms by (simp add: Table_row_line_def row_loop_eq min_def)

text \<open>
  Claim C5. A table with \<open>N\<close> headers writes the column specification \<open>|c|c...|\<close>
  with one \<open>|c\<close> per header; the header row is the headers joined by \<open> & \<close>; a row
  with \<open>M\<close> values writes its first \<open>min M N\<close> cells joined by \<open> & \<close>; every row,
  the header row included, ends with the terminator \<open> \\ \hline\<close>. In particular a
  row of \<open>N + 2\<close> values writes exactly its first \<open>N\<close> cells, joined by \<open> & \<close>.
\<close>

theorem Table_generate_columns_and_rows:
  assumes "length (m_headers t) < 2 ^ 64"
  shows "Table_generate t =
      Table_open t
      @ BS # ''begin{tabular}{'' @ concat (replicate (length (m_headers t)) ''|c'')
      @ ''|}\<newline>'' @ BS # ''hline\<newline>''
      @ join '' & '' (m_headers t) @ row_terminator
      @ concat (map (\<lambda>row.
            join '' & '' (take (min (length row) (length (m_headers t))) row)
            @ (if row \<noteq> [] \<and> length row < length (m_headers t) then '' & '' else [])
            @ row_terminator) (m_rows t))
      @ Table_close t
    \<and> (\<forall>row. length row = length (m_headers t) + 2 \<longrightarrow>
          Table_row_line (length (m_headers t)) row
            = join '' & '' (take (length (m_headers t)) row) @ row_terminator)"
proof
  have rows: "map (Table_row_line (length (m_headers t))) (m_rows t) =
      map (\<lambda>row.
            join '' & '' (take (min (length row) (length (m_headers t))) row)
            @ (if row \<noteq> [] \<and> length row < length (m_headers t) then '' & '' else [])
            @ row_terminator) (m_rows t)"
    using assms by (simp add: Table_row_line_eq)
  show "Table_generate t =
      Table_open t
      @ BS # ''begin{tabular}{'' @ concat (replicate (length (m_headers t)) ''|c'')
      @ ''|}\<newline>'' @ BS # ''hline\<newline>''
      @ join '' & '' (m_headers t) @ row_terminator
      @ concat (map (\<lambda>row.
            join '' & '' (take (min (length row) (length (m_headers t))) row)
            @ (if row \<noteq> [] \<and> length row < length (m_headers t) then '' & '' else [])
            @ row_terminator) (m_rows t))
      @ Table_close t"
    unfolding Table_generate_def Let_def rows colspec_loop_eq header_loop_eq[OF assms]
    by simp
next
  show "\<forall>row. length row = length (m_headers t) + 2 \<longrightarrow>
          Table_row_line (length (m_headers t)) row
            = join '' & '' (take (length (m_headers t)) row) @ row_terminator"
    using assms by (auto simp add: Table_row_line_eq min_def)
qed

theorem Table_generate_columns_and_rows_witness:
  "length (m_headers (addRow [''1'', ''2'', ''3'', ''4''] (Table_init [''A'', ''B''] ''h''))) < 2 ^ 64
   \<and> Table_generate (addRow [''1'', ''2'', ''3'', ''4''] (Table_init [''A'', ''B''] ''h'')) =
       BS # ''begin{table}[h]\<newline>'' @ BS # ''centering\<newline>''
       @ BS # ''begin{tabular}{|c|c|}\<newline>'' @ BS # ''hline\<newline>''
       @ ''A & B '' @ BS # BS # '' '' @ BS # ''hline\<newline>''
       @ ''1 & 2 '' @ BS # BS # '' '' @ BS # ''hline\<newline>''
       @ BS # ''end{tabular}\<newline>'' @ BS # ''end{table}\<newline>''
   \<and> Table_row_line 2 [''1'', ''2'', ''3'', ''4''] = ''1 & 2 '' @ BS # BS # '' '' @ BS # ''hline\<newline>''"
proof -
  let ?t = "addRow [''1'', ''2'', ''3'', ''4''] (Table_init [''A'', ''B''] ''h'')"
  have h: "length (m_headers ?t) < 2 ^ 64"
    by (simp add: addRow_def Table_init_def)
  note th = Table_generate_columns_and_rows [OF h]
  have a: "Table_generate ?t =
       BS # ''begin{table}[h]\<newline>'' @ BS # ''centering\<newline>''
       @ BS # ''begin{tabular}{|c|c|}\<newline>'' @ BS # ''hline\<newline>''
       @ ''A & B '' @ BS # BS # '' '' @ BS # ''hline\<newline>''
       @ ''1 & 2 '' @ BS # BS # '' '' @ BS # ''hline\<newline>''
       @ BS # ''end{tabular}\<newline>'' @ BS # ''end{table}\<newline>''"
    using th [THEN conjunct1]
    by (simp add: addRow_def Table_init_def Table_open_def Table_close_def row_terminator_def)
  have b: "Table_row_line 2 [''1'', ''2'', ''3'', ''4'']
             = ''1 & 2 '' @ BS # BS # '' '' @ BS # ''hline\<newline>''"
    using th [THEN conjunct2, rule_format, of "[''1'', ''2'', ''3'', ''4'']"]
    by (simp add: addRow_def Table_init_def row_terminator_def numeral_2_eq_2)
  from h a b show ?thesis by blast
qed

text \<open>The output of \<^verbatim>\<open>Table::generate\<close> with the lines of the rows as the loop writes
  them.\<close>

lemma Table_generate_rows:
  assumes "length (m_headers t) < 2 ^ 64"
  shows "Table_generate t =
      Table_open t
      @ BS # ''begin{tabular}{'' @ concat (replicate (length (m_headers t)) ''|c'')
      @ ''|}\<newline>'' @ BS # ''hline\<newline>''
      @ join '' & '' (m_headers t) @ row_terminator
      @ concat (map (Table_row_line (length (m_headers t))) (m_rows t))
      @ Table_close t"
  unfolding Table_generate_def Let_def colspec_loop_eq header_loop_eq[OF assms]
  by simp

text \<open>
  Claim C9. When a table with \<open>N\<close> headers holds a non-empty row of \<open>k < N\<close>
  values, the output of \<open>generate\<close> has, after the header line and the lines of the
  rows before it, the line of that row: its \<open>k\<close> cells joined by \<open> & \<close>, then
  one more separator \<open> & \<close>, then the terminator \<open> \\ \hline\<close>. The separator after
  a cell depends on the header count alone.
\<close>

theorem Table_generate_short_row_trailing_separator:
  assumes "length (m_headers t) < 2 ^ 64"
    and "m_rows t = before @ [row] @ after"
    and "row \<noteq> []"
    and "length row < length (m_headers t)"
  shows "Table_generate t =
      Table_open t
      @ BS # ''begin{tabular}{'' @ concat (replicate (length (m_headers t)) ''|c'')
      @ ''|}\<newline>'' @ BS # ''hline\<newline>''
      @ join '' & '' (m_headers t) @ '' '' @ BS # BS # '' '' @ BS # ''hline\<newline>''
      @ concat (map (Table_row_line (length (m_headers t))) before)
      @ join '' & '' row @ '' & '' @ '' '' @ BS # BS # '' '' @ BS # ''hline\<newline>''
      @ concat (map (Table_row_line (length (m_headers t))) after)
      @ Table_close t"
proof -
  have line: "Table_row_line (length (m_headers t)) row
      = join '' & '' row @ '' & '' @ '' '' @ BS # BS # '' '' @ BS # ''hline\<newline>''"
    using assms(1,3,4) by (simp add: Table_row_line_eq row_terminator_def)
  show ?thesis
    unfolding Table_generate_rows[OF assms(1)] assms(2)
    by (simp add: line row_terminator_def)
qed

theorem Table_generate_short_row_trailing_separator_witness:
  "length (m_headers (addRow [''3'', ''4'', ''5''] (addRow [''1'', ''2''] (Table_init [''A'', ''B'', ''C''] ''h'')))) < 2 ^ 64
   \<and> m_rows (addRow [''3'', ''4'', ''5''] (addRow [''1'', ''2''] (Table_init [''A'', ''B'', ''C''] ''h'')))
       = [] @ [[''1'', ''2'']] @ [[''3'', ''4'', ''5'']]
   \<and> [''1'', ''2''] \<noteq> []
   \<and> length [''1'', ''2'']
       < length (m_headers (addRow [''3'', ''4'', ''5''] (addRow [''1'', ''2''] (Table_init [''A'', ''B'', ''C''] ''h''))))
   \<and> Table_generate (addRow [''3'', ''4'', ''5''] (addRow [''1'', ''2''] (Table_init [''A'', ''B'', ''C''] ''h'')))
       = BS # ''begin{table}[h]\<newline>'' @ BS # ''centering\<newline>''
         @ BS # ''begin{tabular}{|c|c|c|}\<newline>'' @ BS # ''hline\<newline>''
         @ ''A & B & C '' @ BS # BS # '' '' @ BS # ''hline\<newline>''
         @ ''1 & 2 &  '' @ BS # BS # '' '' @ BS # ''hline\<newline>''
         @ ''3 & 4 & 5 '' @ BS # BS # '' '' @ BS # ''hline\<newline>''
         @ BS # ''end{tabular}\<newline>'' @ BS # ''end{table}\<newline>''"
proof -
  let ?t = "addRow [''3'', ''4'', ''5''] (addRow [''1'', ''2''] (Table_init [''A'', ''B'', ''C''] ''h''))"
  have h1: "length (m_headers ?t) < 2 ^ 64" by (simp add: addRow_def Table_init_def)
  have h2: "m_rows ?t = [] @ [[''1'', ''2'']] @ [[''3'', ''4'', ''5'']]"
    by (simp add: addRow_def Table_init_def)
  have h3: "[''1'', ''2''] \<noteq> ([] :: string list)" by simp
  have h4: "length [''1'', ''2''] < length (m_headers ?t)" by (simp add: addRow_def Table_init_def)
  have n: "length (m_headers ?t) = 3" by (simp add: addRow_def Table_init_def)
  have r: "Table_row_line (Suc (Suc (Suc 0))) [''3'', ''4'', ''5''] = ''3 & 4 & 5 '' @ BS # BS # '' '' @ BS # ''hline\<newline>''"
    by (simp add: Table_row_line_eq row_terminator_def)
  have g: "Table_generate ?t
       = BS # ''begin{table}[h]\<newline>'' @ BS # ''centering\<newline>''
         @ BS # ''begin{tabular}{|c|c|c|}\<newline>'' @ BS # ''hline\<newline>''
         @ ''A & B & C '' @ BS # BS # '' '' @ BS # ''hline\<newline>''
         @ ''1 & 2 &  '' @ BS # BS # '' '' @ BS # ''hline\<newline>''
         @ ''3 & 4 & 5 '' @ BS # BS # '' '' @ BS # ''hline\<newline>''
         @ BS # ''end{tabular}\<newline>'' @ BS # ''end{table}\<newline>''"
    unfolding Table_generate_short_row_trailing_separator [OF h1 h2 h3 h4] n
    by (simp add: r addRow_def Table_init_def Table_open_def Table_close_def numeral_3_eq_3)
  from h1 h2 h3 h4 g show ?thesis by blast
qed


section \<open>Properties of the environment renderers\<close>

lemma name_as_constructed_init:
  "name_as_constructed (IsTable (Table_init headers position))"
  "name_as_constructed (IsFigure (Figure_init imagePath position))"
  "name_as_constructed (IsAlgorithm (Algorithm_init caption))"
  by (simp_all add: Table_init_def Figure_init_def Algorithm_init_def)

lemma name_as_constructed_kept:
  "name_as_constructed (IsTable t) \<Longrightarrow> name_as_constructed (IsTable (addRow row t))"
  "name_as_constructed (IsTable t) \<Longrightarrow> name_as_constructed (IsTable (Table_setCaption c t))"
  "name_as_constructed (IsTable t) \<Longrightarrow> name_as_constructed (IsTable (Table_setLabel c t))"
  "name_as_constructed (IsFigure f) \<Longrightarrow> name_as_constructed (IsFigure (Figure_setCaption c f))"
  "name_as_constructed (IsFigure f) \<Longrightarrow> name_as_constructed (IsFigure (Figure_setLabel c f))"
  "name_as_constructed (IsFigure f) \<Longrightarrow> name_as_constructed (IsFigure (setWidth c f))"
  "name_as_constructed (IsAlgorithm a) \<Longrightarrow> name_as_constructed (IsAlgorithm (Algorithm_setCaption c a))"
  "name_as_constructed (IsAlgorithm a) \<Longrightarrow> name_as_constructed (IsAlgorithm (Algorithm_setLabel c a))"
  "name_as_constructed (IsAlgorithm a) \<Longrightarrow> name_as_constructed (IsAlgorithm (addLine line indent a))"
  by (simp_all add: addRow_def Table_setCaption_def Table_setLabel_def Figure_setCaption_def
      Figure_setLabel_def setWidth_def Algorithm_setCaption_def Algorithm_setLabel_def addLine_def)

lemma Table_generate_block:
  "\<exists>body. Table_generate t = BS # ''begin{table}'' @ body @ BS # ''end{table}\<newline>''"
proof -
  let ?o = "(if m_options_Table t \<noteq> Map.empty
        then (case m_options_Table t ''position'' of
                Some position \<Rightarrow> ''['' @ position @ '']''
              | None \<Rightarrow> [])
        else [])
     @ ''\<newline>'' @ BS # ''centering\<newline>''"
  let ?c = "BS # ''end{tabular}\<newline>''
     @ (if m_caption_Table t \<noteq> [] then BS # ''caption{'' @ m_caption_Table t @ ''}\<newline>'' else [])
     @ (if m_label_Table t \<noteq> [] then BS # ''label{'' @ m_label_Table t @ ''}\<newline>'' else [])"
  let ?n = "length (m_headers t)"
  have "Table_generate t = BS # ''begin{table}'' @
     (?o @ BS # ''begin{tabular}{'' @ colspec_loop ?n 0 @ ''|}\<newline>'' @ BS # ''hline\<newline>''
      @ header_loop (m_headers t) ?n 0 @ row_terminator
      @ concat (map (Table_row_line ?n) (m_rows t)) @ ?c) @ BS # ''end{table}\<newline>''"
    by (simp add: Table_generate_def Table_open_def Table_close_def Let_def)
  then show ?thesis by blast
qed

lemma Figure_generate_block:
  "\<exists>body. Figure_generate f = BS # ''begin{figure}'' @ body @ BS # ''end{figure}\<newline>''"
proof -
  have "Figure_generate f = BS # ''begin{figure}'' @
     ((if m_options_Figure f \<noteq> Map.empty
        then (case m_options_Figure f ''position'' of
                Some position \<Rightarrow> ''['' @ position @ '']''
              | None \<Rightarrow> [])
        else [])
     @ ''\<newline>'' @ BS # ''centering\<newline>''
     @ BS # ''includegraphics''
     @ (if m_width f \<noteq> [] then ''[width='' @ m_width f @ '']'' else [])
     @ ''{'' @ m_imagePath f @ ''}\<newline>''
     @ (if m_caption_Figure f \<noteq> [] then BS # ''caption{'' @ m_caption_Figure f @ ''}\<newline>'' else [])
     @ (if m_label_Figure f \<noteq> [] then BS # ''label{'' @ m_label_Figure f @ ''}\<newline>'' else []))
     @ BS # ''end{figure}\<newline>''"
    by (simp add: Figure_generate_def)
  then show ?thesis by blast
qed

lemma Equation_generate_block:
  "\<exists>body. Equation_generate e = Environment_begin e @ body @ Environment_end e"
  unfolding Equation_generate_def
  by (rule exI[of _ "m_content_Equation e @ ''\<newline>''
     @ (if m_label_Equation e \<noteq> [] then BS # ''label{'' @ m_label_Equation e @ ''}\<newline>'' else [])"]) simp

lemma List_generate_block:
  "\<exists>body. List_generate l = Environment_begin l @ body @ Environment_end l"
  unfolding List_generate_def by blast

lemma Algorithm_generate_block:
  "\<exists>body. Algorithm_generate a = BS # ''begin{algorithm}\<newline>'' @ body @ BS # ''end{algorithm}\<newline>''"
proof -
  have "Algorithm_generate a = BS # ''begin{algorithm}\<newline>'' @
     ((if m_caption_Algorithm a \<noteq> [] then BS # ''caption{'' @ m_caption_Algorithm a @ ''}\<newline>'' else [])
     @ (if m_label_Algorithm a \<noteq> [] then BS # ''label{'' @ m_label_Algorithm a @ ''}\<newline>'' else [])
     @ BS # ''begin{algorithmic}[1]\<newline>''
     @ concat (map Algorithm_line (m_lines a))
     @ BS # ''end{algorithmic}\<newline>'')
     @ BS # ''end{algorithm}\<newline>''"
    by (simp add: Algorithm_generate_def)
  then show ?thesis by blast
qed

lemma TheoremEnvironment_generate_block:
  "\<exists>body. TheoremEnvironment_generate th = BS # ''begin{'' @ m_name th @ ''}'' @ body @ Environment_end th"
proof -
  have "TheoremEnvironment_generate th = BS # ''begin{'' @ m_name th @ ''}'' @
     ((if m_title_Theorem th \<noteq> [] then ''['' @ m_title_Theorem th @ '']'' else [])
     @ ''\<newline>'' @ m_content_Theorem th @ ''\<newline>'') @ Environment_end th"
    by (simp add: TheoremEnvironment_generate_def Environment_end_def)
  then show ?thesis by blast
qed

lemma Environment_generate_block_exists:
  assumes "name_as_constructed e"
  shows "(\<exists>body. generate_Environment e
            = BS # ''begin{'' @ name_Environment e @ ''}'' @ body @ end_Environment e)
       \<and> (plain_first_line e \<longrightarrow>
            (\<exists>body. generate_Environment e = begin_Environment e @ body @ end_Environment e))"
proof (cases e)
  case (IsTable t)
  with assms Table_generate_block[of t] show ?thesis
    by (simp add: Environment_end_def)
next
  case (IsFigure f)
  with assms Figure_generate_block[of f] show ?thesis
    by (simp add: Environment_end_def)
next
  case (IsEquation q)
  let ?b = "m_content_Equation q @ ''\<newline>''
     @ (if m_label_Equation q \<noteq> [] then BS # ''label{'' @ m_label_Equation q @ ''}\<newline>'' else [])"
  have 1: "Equation_generate q
      = BS # ''begin{'' @ m_name q @ ''}'' @ (''\<newline>'' @ ?b) @ Environment_end q"
    by (simp add: Equation_generate_def Environment_begin_def)
  have 2: "Equation_generate q = Environment_begin q @ ?b @ Environment_end q"
    by (simp add: Equation_generate_def)
  from 1 2 IsEquation show ?thesis by auto
next
  case (IsList l)
  let ?b = "concat (map (List_item l) [0 ..< length (m_items l)])"
  have 1: "List_generate l
      = BS # ''begin{'' @ m_name l @ ''}'' @ (''\<newline>'' @ ?b) @ Environment_end l"
    by (simp add: List_generate_def Environment_begin_def)
  have 2: "List_generate l = Environment_begin l @ ?b @ Environment_end l"
    by (simp add: List_generate_def)
  from 1 2 IsList show ?thesis by auto
next
  case (IsAlgorithm a)
  from Algorithm_generate_block[of a] obtain body where
    b: "Algorithm_generate a = BS # ''begin{algorithm}\<newline>'' @ body @ BS # ''end{algorithm}\<newline>''"
    by blast
  from IsAlgorithm assms have n: "m_name a = ''algorithm''" by simp
  have 1: "Algorithm_generate a = BS # ''begin{'' @ m_name a @ ''}'' @ (''\<newline>'' @ body) @ Environment_end a"
    using b n by (simp add: Environment_end_def)
  have 2: "Algorithm_generate a = Environment_begin a @ body @ Environment_end a"
    using b n by (simp add: Environment_end_def Environment_begin_def)
  from 1 2 IsAlgorithm show ?thesis by auto
next
  case (IsTheoremEnvironment th)
  have 2: "m_title_Theorem th = [] \<Longrightarrow>
      TheoremEnvironment_generate th = Environment_begin th @ (m_content_Theorem th @ ''\<newline>'') @ Environment_end th"
    by (simp add: TheoremEnvironment_generate_def Environment_begin_def Environment_end_def)
  from 2 IsTheoremEnvironment TheoremEnvironment_generate_block[of th] show ?thesis by auto
qed

text \<open>The constructors of \<open>Table\<close> and \<open>Figure\<close> store the position option and no
  method removes it.\<close>

lemma position_as_constructed:
  "m_options_Table (Table_init headers position) ''position'' = Some position"
  "m_options_Figure (Figure_init imagePath position) ''position'' = Some position"
  "m_options_Table (addRow row t) = m_options_Table t"
  "m_options_Table (Table_setCaption c t) = m_options_Table t"
  "m_options_Table (Table_setLabel c t) = m_options_Table t"
  "m_options_Figure (Figure_setCaption c f) = m_options_Figure f"
  "m_options_Figure (Figure_setLabel c f) = m_options_Figure f"
  "m_options_Figure (setWidth c f) = m_options_Figure f"
  by (simp_all add: Table_init_def Figure_init_def addRow_def Table_setCaption_def
      Table_setLabel_def Figure_setCaption_def Figure_setLabel_def setWidth_def)

lemma map_with_key_nonempty: "m k = Some v \<Longrightarrow> m \<noteq> Map.empty"
  by auto

text \<open>
  Claim C3, as the code has it. Every environment variant, in a state its constructor
  and methods give it, generates a block that starts with \<open>\begin{name}\<close> and ends
  with the exact string of \<open>end()\<close>, the body of the variant in between. A Table and
  a Figure write their position option in brackets, and a TheoremEnvironment with a
  title writes the title in brackets, between \<open>\begin{name}\<close> and the end of the
  first line. The exact string of \<open>begin()\<close> (\<open>\begin{name}\<close> and a newline) starts
  the block of an Equation, a List, an Algorithm and a TheoremEnvironment without
  title.
\<close>

theorem Environment_generate_begin_body_end:
  "(m_name t = ''table'' \<and> m_options_Table t ''position'' = Some pt \<longrightarrow>
      generate_Environment (IsTable t) =
        BS # ''begin{table}'' @ ''['' @ pt @ '']'' @ ''\<newline>''
        @ (BS # ''centering\<newline>''
           @ BS # ''begin{tabular}{'' @ colspec_loop (length (m_headers t)) 0
           @ ''|}\<newline>'' @ BS # ''hline\<newline>''
           @ header_loop (m_headers t) (length (m_headers t)) 0
           @ '' '' @ BS # BS # '' '' @ BS # ''hline\<newline>''
           @ concat (map (\<lambda>row. row_loop row (length (m_headers t)) 0
                                  @ '' '' @ BS # BS # '' '' @ BS # ''hline\<newline>'') (m_rows t))
           @ BS # ''end{tabular}\<newline>''
           @ (if m_caption_Table t \<noteq> []
              then BS # ''caption{'' @ m_caption_Table t @ ''}\<newline>'' else [])
           @ (if m_label_Table t \<noteq> []
              then BS # ''label{'' @ m_label_Table t @ ''}\<newline>'' else []))
        @ end_Environment (IsTable t))
   \<and> (m_name f = ''figure'' \<and> m_options_Figure f ''position'' = Some pf \<longrightarrow>
      generate_Environment (IsFigure f) =
        BS # ''begin{figure}'' @ ''['' @ pf @ '']'' @ ''\<newline>''
        @ (BS # ''centering\<newline>''
           @ BS # ''includegraphics''
           @ (if m_width f \<noteq> [] then ''[width='' @ m_width f @ '']'' else [])
           @ ''{'' @ m_imagePath f @ ''}\<newline>''
           @ (if m_caption_Figure f \<noteq> []
              then BS # ''caption{'' @ m_caption_Figure f @ ''}\<newline>'' else [])
           @ (if m_label_Figure f \<noteq> []
              then BS # ''label{'' @ m_label_Figure f @ ''}\<newline>'' else []))
        @ end_Environment (IsFigure f))
   \<and> generate_Environment (IsTheoremEnvironment th) =
        BS # ''begin{'' @ m_name th @ ''}''
        @ (if m_title_Theorem th \<noteq> [] then ''['' @ m_title_Theorem th @ '']'' else [])
        @ ''\<newline>''
        @ (m_content_Theorem th @ ''\<newline>'')
        @ end_Environment (IsTheoremEnvironment th)
   \<and> (m_title_Theorem th = [] \<longrightarrow>
        generate_Environment (IsTheoremEnvironment th) =
          begin_Environment (IsTheoremEnvironment th)
          @ (m_content_Theorem th @ ''\<newline>'')
          @ end_Environment (IsTheoremEnvironment th))
   \<and> generate_Environment (IsEquation q) =
        begin_Environment (IsEquation q)
        @ (m_content_Equation q @ ''\<newline>''
           @ (if m_label_Equation q \<noteq> []
              then BS # ''label{'' @ m_label_Equation q @ ''}\<newline>'' else []))
        @ end_Environment (IsEquation q)
   \<and> generate_Environment (IsList li) =
        begin_Environment (IsList li)
        @ concat (map (List_item li) [0 ..< length (m_items li)])
        @ end_Environment (IsList li)
   \<and> (m_name a = ''algorithm'' \<longrightarrow>
        generate_Environment (IsAlgorithm a) =
          begin_Environment (IsAlgorithm a)
          @ ((if m_caption_Algorithm a \<noteq> []
              then BS # ''caption{'' @ m_caption_Algorithm a @ ''}\<newline>'' else [])
             @ (if m_label_Algorithm a \<noteq> []
                then BS # ''label{'' @ m_label_Algorithm a @ ''}\<newline>'' else [])
             @ BS # ''begin{algorithmic}[1]\<newline>''
             @ concat (map Algorithm_line (m_lines a))
             @ BS # ''end{algorithmic}\<newline>'')
          @ end_Environment (IsAlgorithm a))
   \<and> (name_as_constructed e \<longrightarrow>
        (\<exists>body. generate_Environment e
            = BS # ''begin{'' @ name_Environment e @ ''}'' @ body @ end_Environment e)
        \<and> (plain_first_line e \<longrightarrow>
            (\<exists>body. generate_Environment e = begin_Environment e @ body @ end_Environment e)))"
proof (intro conjI impI)
  assume a: "m_name t = ''table'' \<and> m_options_Table t ''position'' = Some pt"
  then have ne: "m_options_Table t \<noteq> Map.empty" by (auto dest: map_with_key_nonempty)
  show "generate_Environment (IsTable t) =
        BS # ''begin{table}'' @ ''['' @ pt @ '']'' @ ''\<newline>''
        @ (BS # ''centering\<newline>''
           @ BS # ''begin{tabular}{'' @ colspec_loop (length (m_headers t)) 0
           @ ''|}\<newline>'' @ BS # ''hline\<newline>''
           @ header_loop (m_headers t) (length (m_headers t)) 0
           @ '' '' @ BS # BS # '' '' @ BS # ''hline\<newline>''
           @ concat (map (\<lambda>row. row_loop row (length (m_headers t)) 0
                                  @ '' '' @ BS # BS # '' '' @ BS # ''hline\<newline>'') (m_rows t))
           @ BS # ''end{tabular}\<newline>''
           @ (if m_caption_Table t \<noteq> []
              then BS # ''caption{'' @ m_caption_Table t @ ''}\<newline>'' else [])
           @ (if m_label_Table t \<noteq> []
              then BS # ''label{'' @ m_label_Table t @ ''}\<newline>'' else []))
        @ end_Environment (IsTable t)"
    using a ne
    by (simp add: Table_generate_def Table_open_def Table_close_def Let_def
        Environment_end_def row_terminator_def Table_row_line_def[abs_def])
next
  assume a: "m_name f = ''figure'' \<and> m_options_Figure f ''position'' = Some pf"
  then have ne: "m_options_Figure f \<noteq> Map.empty" by (auto dest: map_with_key_nonempty)
  show "generate_Environment (IsFigure f) =
        BS # ''begin{figure}'' @ ''['' @ pf @ '']'' @ ''\<newline>''
        @ (BS # ''centering\<newline>''
           @ BS # ''includegraphics''
           @ (if m_width f \<noteq> [] then ''[width='' @ m_width f @ '']'' else [])
           @ ''{'' @ m_imagePath f @ ''}\<newline>''
           @ (if m_caption_Figure f \<noteq> []
              then BS # ''caption{'' @ m_caption_Figure f @ ''}\<newline>'' else [])
           @ (if m_label_Figure f \<noteq> []
              then BS # ''label{'' @ m_label_Figure f @ ''}\<newline>'' else []))
        @ end_Environment (IsFigure f)"
    using a ne by (simp add: Figure_generate_def Environment_end_def)
next
  show "generate_Environment (IsTheoremEnvironment th) =
        BS # ''begin{'' @ m_name th @ ''}''
        @ (if m_title_Theorem th \<noteq> [] then ''['' @ m_title_Theorem th @ '']'' else [])
        @ ''\<newline>''
        @ (m_content_Theorem th @ ''\<newline>'')
        @ end_Environment (IsTheoremEnvironment th)"
    by (simp add: TheoremEnvironment_generate_def Environment_end_def)
next
  assume "m_title_Theorem th = []"
  then show "generate_Environment (IsTheoremEnvironment th) =
          begin_Environment (IsTheoremEnvironment th)
          @ (m_content_Theorem th @ ''\<newline>'')
          @ end_Environment (IsTheoremEnvironment th)"
    by (simp add: TheoremEnvironment_generate_def Environment_begin_def Environment_end_def)
next
  show "generate_Environment (IsEquation q) =
        begin_Environment (IsEquation q)
        @ (m_content_Equation q @ ''\<newline>''
           @ (if m_label_Equation q \<noteq> []
              then BS # ''label{'' @ m_label_Equation q @ ''}\<newline>'' else []))
        @ end_Environment (IsEquation q)"
    by (simp add: Equation_generate_def)
next
  show "generate_Environment (IsList li) =
        begin_Environment (IsList li)
        @ concat (map (List_item li) [0 ..< length (m_items li)])
        @ end_Environment (IsList li)"
    by (simp add: List_generate_def)
next
  assume "m_name a = ''algorithm''"
  then show "generate_Environment (IsAlgorithm a) =
          begin_Environment (IsAlgorithm a)
          @ ((if m_caption_Algorithm a \<noteq> []
              then BS # ''caption{'' @ m_caption_Algorithm a @ ''}\<newline>'' else [])
             @ (if m_label_Algorithm a \<noteq> []
                then BS # ''label{'' @ m_label_Algorithm a @ ''}\<newline>'' else [])
             @ BS # ''begin{algorithmic}[1]\<newline>''
             @ concat (map Algorithm_line (m_lines a))
             @ BS # ''end{algorithmic}\<newline>'')
          @ end_Environment (IsAlgorithm a)"
    by (simp add: Algorithm_generate_def Environment_begin_def Environment_end_def)
next
  assume n: "name_as_constructed e"
  show "\<exists>body. generate_Environment e
            = BS # ''begin{'' @ name_Environment e @ ''}'' @ body @ end_Environment e"
    using Environment_generate_block_exists[OF n] by blast
next
  assume n: "name_as_constructed e" and p: "plain_first_line e"
  show "\<exists>body. generate_Environment e = begin_Environment e @ body @ end_Environment e"
    using Environment_generate_block_exists[OF n] p by blast
qed

theorem Environment_generate_begin_body_end_witness:
  "m_name (addRow [''1''] (Table_init [''A''] ''h'')) = ''table''
   \<and> m_options_Table (addRow [''1''] (Table_init [''A''] ''h'')) ''position'' = Some ''h''
   \<and> generate_Environment (IsTable (addRow [''1''] (Table_init [''A''] ''h''))) =
       BS # ''begin{table}[h]\<newline>'' @ BS # ''centering\<newline>''
       @ BS # ''begin{tabular}{|c|}\<newline>'' @ BS # ''hline\<newline>''
       @ ''A '' @ BS # BS # '' '' @ BS # ''hline\<newline>''
       @ ''1 '' @ BS # BS # '' '' @ BS # ''hline\<newline>''
       @ BS # ''end{tabular}\<newline>'' @ BS # ''end{table}\<newline>''
   \<and> m_name (Figure_init ''img.png'' ''htbp'') = ''figure''
   \<and> m_options_Figure (Figure_init ''img.png'' ''htbp'') ''position'' = Some ''htbp''
   \<and> generate_Environment (IsFigure (Figure_init ''img.png'' ''htbp'')) =
       BS # ''begin{figure}[htbp]\<newline>'' @ BS # ''centering\<newline>''
       @ BS # ''includegraphics[width=0.8'' @ BS # ''textwidth]{img.png}\<newline>''
       @ BS # ''end{figure}\<newline>''
   \<and> generate_Environment (IsTheoremEnvironment (TheoremEnvironment_init THEOREM ''x'' ''Named'')) =
       BS # ''begin{theorem}[Named]\<newline>x\<newline>'' @ BS # ''end{theorem}\<newline>''
   \<and> m_title_Theorem (TheoremEnvironment_init LEMMA ''y'' []) = []
   \<and> generate_Environment (IsTheoremEnvironment (TheoremEnvironment_init LEMMA ''y'' [])) =
       BS # ''begin{lemma}\<newline>y\<newline>'' @ BS # ''end{lemma}\<newline>''
   \<and> m_name (addLine ''x'' 1 (Algorithm_init ''cap'')) = ''algorithm''
   \<and> name_as_constructed (IsAlgorithm (addLine ''x'' 1 (Algorithm_init ''cap'')))
   \<and> plain_first_line (IsAlgorithm (addLine ''x'' 1 (Algorithm_init ''cap'')))
   \<and> generate_Environment (IsAlgorithm (addLine ''x'' 1 (Algorithm_init ''cap''))) =
       BS # ''begin{algorithm}\<newline>'' @ BS # ''caption{cap}\<newline>''
       @ BS # ''begin{algorithmic}[1]\<newline>    x\<newline>'' @ BS # ''end{algorithmic}\<newline>''
       @ BS # ''end{algorithm}\<newline>''"
proof -
  let ?t = "addRow [''1''] (Table_init [''A''] ''h'')"
  let ?f = "Figure_init ''img.png'' ''htbp''"
  let ?th = "TheoremEnvironment_init THEOREM ''x'' ''Named''"
  let ?lem = "TheoremEnvironment_init LEMMA ''y'' []"
  let ?a = "addLine ''x'' 1 (Algorithm_init ''cap'')"
  have t1: "m_name ?t = ''table''" and t2: "m_options_Table ?t ''position'' = Some ''h''"
    by (simp_all add: addRow_def Table_init_def)
  have f1: "m_name ?f = ''figure''" and f2: "m_options_Figure ?f ''position'' = Some ''htbp''"
    by (simp_all add: Figure_init_def)
  have h0: "m_title_Theorem ?lem = []" by (simp add: TheoremEnvironment_init_def)
  have a1: "m_name ?a = ''algorithm''" by (simp add: addLine_def Algorithm_init_def)
  have a2: "name_as_constructed (IsAlgorithm ?a)" using a1 by simp
  have a3: "plain_first_line (IsAlgorithm ?a)" by simp
  have loops: "colspec_loop (Suc 0) 0 = ''|c''" "header_loop [''A''] (Suc 0) 0 = ''A''"
    "row_loop [''1''] (Suc 0) 0 = ''1''"
    using header_loop_eq[of "[''A'']"] row_loop_eq[of "Suc 0" "[''1'']" 0]
    by (simp_all add: colspec_loop_eq)
  have gt: "generate_Environment (IsTable ?t) =
       BS # ''begin{table}[h]\<newline>'' @ BS # ''centering\<newline>''
       @ BS # ''begin{tabular}{|c|}\<newline>'' @ BS # ''hline\<newline>''
       @ ''A '' @ BS # BS # '' '' @ BS # ''hline\<newline>''
       @ ''1 '' @ BS # BS # '' '' @ BS # ''hline\<newline>''
       @ BS # ''end{tabular}\<newline>'' @ BS # ''end{table}\<newline>''"
    using Environment_generate_begin_body_end
            [where t = ?t and pt = "''h''", THEN conjunct1] t1 t2
    by (simp add: addRow_def Table_init_def Environment_end_def loops)
  have gf: "generate_Environment (IsFigure ?f) =
       BS # ''begin{figure}[htbp]\<newline>'' @ BS # ''centering\<newline>''
       @ BS # ''includegraphics[width=0.8'' @ BS # ''textwidth]{img.png}\<newline>''
       @ BS # ''end{figure}\<newline>''"
    using Environment_generate_begin_body_end
            [where f = ?f and pf = "''htbp''", THEN conjunct2, THEN conjunct1] f1 f2
    by (simp add: Figure_init_def Environment_end_def)
  have gth: "generate_Environment (IsTheoremEnvironment ?th) =
       BS # ''begin{theorem}[Named]\<newline>x\<newline>'' @ BS # ''end{theorem}\<newline>''"
    using Environment_generate_begin_body_end
            [where th = ?th, THEN conjunct2, THEN conjunct2, THEN conjunct1]
    by (simp add: TheoremEnvironment_init_def Environment_end_def)
  have gth0: "generate_Environment (IsTheoremEnvironment ?lem) =
       BS # ''begin{lemma}\<newline>y\<newline>'' @ BS # ''end{lemma}\<newline>''"
    using Environment_generate_begin_body_end
            [where th = ?lem, THEN conjunct2, THEN conjunct2, THEN conjunct2, THEN conjunct1] h0
    by (simp add: TheoremEnvironment_init_def Environment_begin_def Environment_end_def)
  have ga: "generate_Environment (IsAlgorithm ?a) =
       BS # ''begin{algorithm}\<newline>'' @ BS # ''caption{cap}\<newline>''
       @ BS # ''begin{algorithmic}[1]\<newline>    x\<newline>'' @ BS # ''end{algorithmic}\<newline>''
       @ BS # ''end{algorithm}\<newline>''"
    using Environment_generate_begin_body_end
            [where a = ?a, THEN conjunct2, THEN conjunct2, THEN conjunct2, THEN conjunct2,
             THEN conjunct2, THEN conjunct2, THEN conjunct1] a1
    by (simp add: addLine_def Algorithm_init_def Environment_begin_def Environment_end_def
        Algorithm_line_def)
  from t1 t2 gt f1 f2 gf gth h0 gth0 a1 a2 a3 ga show ?thesis by blast
qed


text \<open>
  Claim C3 as stated fails: a table constructed with position \<open>h\<close> starts with
  \<open>\begin{table}[h]\<close>, which the string of \<open>begin()\<close>, \<open>\begin{table}\<close> and a
  newline, is no prefix of.
\<close>

theorem Table_generate_not_begin_counterexample:
  "\<not> prefix (begin_Environment (IsTable (Table_init [''A''] ''h'')))
             (generate_Environment (IsTable (Table_init [''A''] ''h'')))"
  by (simp add: Table_generate_def Table_open_def Table_init_def Environment_begin_def Let_def)

section \<open>Properties of the math sanitization\<close>

text \<open>The map of replacements is gone through in the order of its keys: the four words
  first, the accented letters after them.\<close>

lemma replacements_sorted:
  "map fst replacements =
     [''Documents'', ''Productivit'' @ CHR 0xC3 # [CHR 0xA9], ''Qualit'' @ CHR 0xC3 # [CHR 0xA9],
      ''Temps'', CHR 0xC3 # [CHR 0xA0], CHR 0xC3 # [CHR 0xA7], CHR 0xC3 # [CHR 0xA8],
      CHR 0xC3 # [CHR 0xA9], CHR 0xC3 # [CHR 0xAA], CHR 0xC3 # [CHR 0xB9]]"
  by code_simp

text \<open>
  Claim C4, on the code. The input is the accented word \<open>Productivite\<close> (its last
  letter the two bytes \<open>C3 A9\<close>), a space, and an \<open>equation\<close> block that holds the
  same word. The word before the block is returned as it is. Inside the block the
  word is first wrapped whole in \<open>\text{...}\<close> and then its last letter is wrapped
  again inside it, so the block holds \<open>\text{Productivit\text{e}}\<close> and the result
  holds nowhere the word wrapped whole.
\<close>

theorem sanitizeMathContent_Productivite:
  "sanitizeMathContent
     (''Productivit'' @ CHR 0xC3 # CHR 0xA9 # '' '' @ BS # ''begin{equation}Productivit''
      @ CHR 0xC3 # CHR 0xA9 # BS # ''end{equation}'')
   = ''Productivit'' @ CHR 0xC3 # CHR 0xA9 # '' '' @ BS # ''begin{equation}''
     @ BS # ''text{Productivit'' @ BS # ''text{'' @ CHR 0xC3 # CHR 0xA9 # ''}}''
     @ BS # ''end{equation}''
   \<and> \<not> sublist (BS # ''text{Productivit'' @ CHR 0xC3 # CHR 0xA9 # ''}'')
         (sanitizeMathContent
            (''Productivit'' @ CHR 0xC3 # CHR 0xA9 # '' '' @ BS # ''begin{equation}Productivit''
             @ CHR 0xC3 # CHR 0xA9 # BS # ''end{equation}''))"
  by code_simp

section \<open>Properties of the bibliography commands\<close>

text \<open>The bodies of \<open>Document\<close> and \<open>Article\<close> end with the bibliography commands
  exactly when a citation key is recorded; what stands before does not read the
  citations or the bibliography.\<close>

lemma Document_generateDocument_bibliography:
  "Document_generateDocument d =
     BS # ''begin{document}\<newline>\<newline>''
     @ (if m_title d \<noteq> [] then BS # ''maketitle\<newline>\<newline>'' else [])
     @ rawContent_block d @ sections_block d @ environments_block d
     @ (if m_usedCitations d = {} then []
        else getIncludeCommands (m_bibliography d) [] @ ''\<newline>'')
     @ BS # ''end{document}\<newline>''"
  by (simp add: Document_generateDocument_def)

lemma Article_generateDocument_bibliography:
  "Article_generateDocument a =
     BS # ''begin{document}\<newline>\<newline>''
     @ Article_title_block a @ abstract_block (m_abstract_Article a)
     @ (if m_includeTableOfContents_Article a
        then BS # ''tableofcontents\<newline>'' @ BS # ''clearpage\<newline>\<newline>'' else [])
     @ rawContent_block a @ sections_block a @ environments_block a
     @ (if m_usedCitations a = {} then []
        else getIncludeCommands (m_bibliography a) [] @ ''\<newline>'')
     @ BS # ''end{document}\<newline>''"
  by (simp add: Article_generateDocument_def)

text \<open>The bodies of \<open>Report\<close>, \<open>Book\<close> and \<open>Presentation\<close> read neither the recorded
  citations nor the bibliography.\<close>

lemma Report_generateDocument_ignores_citations:
  "Report_generateDocument (r\<lparr>m_usedCitations := cs, m_bibliography := bib\<rparr>)
     = Report_generateDocument r"
  by (simp add: Report_generateDocument_def rawContent_block_def sections_block_def
      environments_block_def)

lemma Book_part_ignores_citations:
  "Book_part (b\<lparr>m_usedCitations := cs, m_bibliography := bib\<rparr>) = Book_part b"
  by (rule ext) (simp add: Book_part_def)

lemma Book_generateDocument_ignores_citations:
  "Book_generateDocument (b\<lparr>m_usedCitations := cs, m_bibliography := bib\<rparr>)
     = Book_generateDocument b"
  by (simp add: Book_generateDocument_def rawContent_block_def sections_block_def
      environments_block_def Book_parts_def Book_part_ignores_citations)

lemma Presentation_generateDocument_ignores_citations:
  "Presentation_generateDocument (p\<lparr>m_usedCitations := cs, m_bibliography := bib\<rparr>)
     = Presentation_generateDocument p"
  by (simp add: Presentation_generateDocument_def Presentation_before_slides_def
      Presentation_after_slides_def rawContent_block_def)

text \<open>
  Claim C1, on the code. A report with the title \<open>T\<close>, an attached bibliography and
  the citation key \<open>smith2023\<close> recorded by \<open>cite\<close> generates a body with no
  bibliography command: \<open>\begin{document}\<close>, \<open>\maketitle\<close>, \<open>\end{document}\<close>.
\<close>

theorem Report_generateDocument_no_bibliography:
  "m_usedCitations
     (snd (cite ''smith2023''
        (setBibliography (Bibliography_init ''references'' IEEE)
           (Report_init ''T'' ''A'' ''D'' ENGLISH)))) = {''smith2023''}
   \<and> Report_generateDocument
       (snd (cite ''smith2023''
          (setBibliography (Bibliography_init ''references'' IEEE)
             (Report_init ''T'' ''A'' ''D'' ENGLISH))))
     = BS # ''begin{document}\<newline>\<newline>'' @ BS # ''maketitle\<newline>\<newline>'' @ BS # ''end{document}\<newline>''"
  by (simp add: cite_def setBibliography_def Report_init_def Document_init_def addPackage_def
      Report_generateDocument_def rawContent_block_def sections_block_def
      environments_block_def abstract_block_def Document.defs Report.defs)


section \<open>Properties of the presentation slides\<close>

text \<open>\<^verbatim>\<open>find\<close> from the start of a string finds a pattern exactly when the pattern is
  a contiguous part of the string.\<close>

lemma take_eq_prefix: "take (length pat) s = pat \<longleftrightarrow> prefix pat s"
proof
  assume "take (length pat) s = pat"
  then have "s = pat @ drop (length pat) s" by (metis append_take_drop_id)
  then show "prefix pat s" by (rule prefixI)
next
  assume "prefix pat s"
  then obtain zs where "s = pat @ zs" by (auto simp: prefix_def)
  then show "take (length pat) s = pat" by simp
qed

lemma find_in_None: "find_in pat s i = None \<longleftrightarrow> \<not> sublist pat s"
proof (induction s arbitrary: i)
  case Nil
  show ?case by simp
next
  case (Cons c cs)
  show ?case
    using Cons.IH[of "Suc i"]
    by (simp add: sublist_Cons_right take_eq_prefix del: take_Suc_Cons)
qed

lemma str_find_None: "str_find s pat 0 = None \<longleftrightarrow> \<not> sublist pat s"
  by (simp add: str_find_def find_in_None)

lemma needsFragile_iff:
  "needsFragile content \<longleftrightarrow> (\<exists>c \<in> set content. sublist lstlisting_marker c)"
  by (induction content) (simp_all add: str_find_None del: not_None_eq)

text \<open>
  Claim C8. The frame written for a slide is opened with the option \<open>[fragile]\<close>
  when some content line of the slide holds the marker \<open>\begin{lstlisting}\<close>, and
  with no option when no line holds it; the title, the content lines and
  \<open>\end{frame}\<close> follow. A slide added by \<open>addSlide\<close> is written after the slides
  added before it, between what the presentation writes before and after its slides.
\<close>

theorem Presentation_slide_fragile:
  "Presentation_slide (title, content) =
     (if \<exists>c \<in> set content. sublist (BS # ''begin{lstlisting}'') c
      then BS # ''begin{frame}[fragile]{'' @ title @ ''}\<newline>''
      else BS # ''begin{frame}{'' @ title @ ''}\<newline>'')
     @ concat (map (\<lambda>c. c @ ''\<newline>'') content)
     @ BS # ''end{frame}\<newline>\<newline>''
   \<and> Presentation_generateDocument (addSlide title content p) =
       Presentation_before_slides p
       @ concat (map Presentation_slide (m_slides p))
       @ Presentation_slide (title, content)
       @ Presentation_after_slides p"
proof
  show "Presentation_slide (title, content) =
     (if \<exists>c \<in> set content. sublist (BS # ''begin{lstlisting}'') c
      then BS # ''begin{frame}[fragile]{'' @ title @ ''}\<newline>''
      else BS # ''begin{frame}{'' @ title @ ''}\<newline>'')
     @ concat (map (\<lambda>c. c @ ''\<newline>'') content)
     @ BS # ''end{frame}\<newline>\<newline>''"
    using needsFragile_iff[of content]
    by (simp add: Presentation_slide_def lstlisting_marker_def)
next
  have b: "Presentation_before_slides (addSlide title content p) = Presentation_before_slides p"
    by (simp add: Presentation_before_slides_def addSlide_def rawContent_block_def)
  have a: "Presentation_after_slides (addSlide title content p) = Presentation_after_slides p"
    by (simp add: Presentation_after_slides_def addSlide_def)
  show "Presentation_generateDocument (addSlide title content p) =
       Presentation_before_slides p
       @ concat (map Presentation_slide (m_slides p))
       @ Presentation_slide (title, content)
       @ Presentation_after_slides p"
    unfolding Presentation_generateDocument_def a b
    by (simp add: addSlide_def)
qed

theorem Presentation_slide_fragile_witness:
  "Presentation_slide (''Code'', [''intro'', BS # ''begin{lstlisting}'', ''x = 1'', BS # ''end{lstlisting}''])
     = BS # ''begin{frame}[fragile]{Code}\<newline>intro\<newline>'' @ BS # ''begin{lstlisting}\<newline>x = 1\<newline>''
       @ BS # ''end{lstlisting}\<newline>'' @ BS # ''end{frame}\<newline>\<newline>''
   \<and> Presentation_slide (''Plain'', [''intro'', ''x = 1''])
     = BS # ''begin{frame}{Plain}\<newline>intro\<newline>x = 1\<newline>'' @ BS # ''end{frame}\<newline>\<newline>''"
proof -
  have 1: "\<exists>c \<in> set [''intro'', BS # ''begin{lstlisting}'', ''x = 1'', BS # ''end{lstlisting}''].
             sublist (BS # ''begin{lstlisting}'') c"
    by simp
  have 2: "\<not> (\<exists>c \<in> set [''intro'', ''x = 1'']. sublist (BS # ''begin{lstlisting}'') c)"
    by (simp add: sublist_Cons_right)
  show ?thesis
    using Presentation_slide_fragile
            [of "''Code''" "[''intro'', BS # ''begin{lstlisting}'', ''x = 1'', BS # ''end{lstlisting}'']",
             THEN conjunct1]
          Presentation_slide_fragile [of "''Plain''" "[''intro'', ''x = 1'']", THEN conjunct1]
          1 2
    by (simp only: if_True if_False) simp
qed

section \<open>Properties of the article body\<close>

text \<open>
  Claim C10. In the body of an article whose title is empty the title block is
  empty: the abstract block follows \<open>\begin{document}\<close> at once, so neither
  \<open>\maketitle\<close> nor a \<open>\keywords\<close> line is written, and the body is the same
  whatever keywords the article holds.
\<close>

theorem Article_empty_title_no_keywords:
  assumes "m_title a = []"
  shows "Article_title_block a = []
    \<and> Article_generateDocument a =
        BS # ''begin{document}\<newline>\<newline>''
        @ abstract_block (m_abstract_Article a)
        @ (if m_includeTableOfContents_Article a
           then BS # ''tableofcontents\<newline>'' @ BS # ''clearpage\<newline>\<newline>'' else [])
        @ rawContent_block a @ sections_block a @ environments_block a
        @ (if m_usedCitations a \<noteq> {}
           then getIncludeCommands (m_bibliography a) [] @ ''\<newline>'' else [])
        @ BS # ''end{document}\<newline>''
    \<and> Article_generateDocument (a\<lparr>m_keywords := keywords\<rparr>) = Article_generateDocument a"
  using assms
  by (simp add: Article_title_block_def Article_generateDocument_def rawContent_block_def
      sections_block_def environments_block_def)

theorem Article_empty_title_no_keywords_witness:
  "m_title (addKeyword ''latex'' (addKeyword ''cpp'' (Article_init [] ''A'' ''D'' ENGLISH))) = []
   \<and> m_keywords (addKeyword ''latex'' (addKeyword ''cpp'' (Article_init [] ''A'' ''D'' ENGLISH)))
       = [''cpp'', ''latex'']
   \<and> Article_generateDocument
        (addKeyword ''latex'' (addKeyword ''cpp'' (Article_init [] ''A'' ''D'' ENGLISH)))
       = BS # ''begin{document}\<newline>\<newline>'' @ BS # ''end{document}\<newline>''
   \<and> \<not> sublist (BS # ''maketitle'')
         (Article_generateDocument
            (addKeyword ''latex'' (addKeyword ''cpp'' (Article_init [] ''A'' ''D'' ENGLISH))))
   \<and> \<not> sublist (BS # ''keywords{'')
         (Article_generateDocument
            (addKeyword ''latex'' (addKeyword ''cpp'' (Article_init [] ''A'' ''D'' ENGLISH))))"
proof -
  let ?a = "addKeyword ''latex'' (addKeyword ''cpp'' (Article_init [] ''A'' ''D'' ENGLISH))"
  have t: "m_title ?a = []"
    by (simp add: addKeyword_def Article_init_def Document_init_def addPackage_def
        Document.defs Article.defs)
  have k: "m_keywords ?a = [''cpp'', ''latex'']"
    by (simp add: addKeyword_def Article_init_def Document_init_def addPackage_def
        Document.defs Article.defs)
  have g: "Article_generateDocument ?a
       = BS # ''begin{document}\<newline>\<newline>'' @ BS # ''end{document}\<newline>''"
    using Article_empty_title_no_keywords [OF t, THEN conjunct2, THEN conjunct1]
    by (simp add: addKeyword_def Article_init_def Document_init_def addPackage_def
        Document.defs Article.defs abstract_block_def rawContent_block_def
        sections_block_def environments_block_def)
  have n: "\<not> sublist (BS # ''maketitle'') (Article_generateDocument ?a)
      \<and> \<not> sublist (BS # ''keywords{'') (Article_generateDocument ?a)"
    unfolding g by (simp add: sublist_Cons_right)
  from t k g n show ?thesis by blast
qed

section \<open>Properties of generate\<close>

text \<open>
  Claim C2. For a document of any class \<open>generate\<close> leaves the document as it was,
  returns the same text when called again on it, and that text is the preamble
  followed by the body.
\<close>

theorem generate_pure:
  "snd (generate d) = d
   \<and> fst (generate (snd (generate d))) = fst (generate d)
   \<and> fst (generate d) = generatePreamble d @ generateDocument d"
  by (simp add: generate_def)


theorem generate_pure_witness:
  "generate (IsDocument (addSection (addContent ''hello'' (Section_init ''Intro'' SECTION))
                (Document_init ARTICLE ''T'' ''A'' ''D'' ENGLISH)))
   = (BS # ''documentclass{article}\<newline>\<newline>''
      @ BS # ''usepackage[T1]{fontenc}\<newline>''
      @ BS # ''usepackage[utf8]{inputenc}\<newline>\<newline>''
      @ BS # ''title{T}\<newline>'' @ BS # ''author{A}\<newline>'' @ BS # ''date{D}\<newline>\<newline>''
      @ BS # ''begin{document}\<newline>\<newline>'' @ BS # ''maketitle\<newline>\<newline>''
      @ BS # ''section{Intro}\<newline>hello\<newline>\<newline>''
      @ BS # ''end{document}\<newline>'',
      IsDocument (addSection (addContent ''hello'' (Section_init ''Intro'' SECTION))
                (Document_init ARTICLE ''T'' ''A'' ''D'' ENGLISH)))"
proof -
  let ?d = "IsDocument (addSection (addContent ''hello'' (Section_init ''Intro'' SECTION))
                (Document_init ARTICLE ''T'' ''A'' ''D'' ENGLISH))"
  have "fst (generate ?d) = generatePreamble ?d @ generateDocument ?d" and "snd (generate ?d) = ?d"
    using generate_pure [of ?d] by simp_all
  then have "generate ?d = (generatePreamble ?d @ generateDocument ?d, ?d)"
    by (simp add: prod_eq_iff)
  then show ?thesis
    by (simp add: addSection_def addContent_def Section_init_def Document_init_def
        addPackage_def Document_generatePreamble_def Document_preamble_rest_def
        Document_generateDocument_def getDocumentClass_def getLanguageConfiguration_def
        usepackage_line_def rawContent_block_def sections_block_def environments_block_def
        Section_generate_def Bibliography_default_def)
qed

section \<open>Properties of the parts of a book\<close>

lemma int_of_size_t_small: "n < 2 ^ 31 \<Longrightarrow> int_of_size_t n = int n"
proof -
  assume a: "n < 2 ^ 31"
  then have "int n < 2 ^ 31" by (metis of_nat_less_iff of_nat_numeral of_nat_power)
  then have "int n mod 2 ^ 32 = int n" by simp
  with \<open>int n < 2 ^ 31\<close> show ?thesis by (simp add: int_of_size_t_def Let_def)
qed

lemma size_t_sub_Suc: "n < 2 ^ 31 \<Longrightarrow> size_t_sub (Suc n) (Suc 0) = n"
proof -
  assume "n < 2 ^ 31"
  then have "Suc n < 2 ^ 64" by simp
  with size_t_sub_one[of "Suc n"] show ?thesis by simp
qed

lemma Book_inv_init: "Book_inv (Book_init title author date language)"
  by (simp add: Book_inv_def Book_init_def addPackage_def Document.defs Book.defs)

lemma Book_inv_addPart:
  assumes "length (m_parts b) < 2 ^ 31"
  shows "Book_inv (addPart title b)"
  using size_t_sub_Suc[OF assms] int_of_size_t_small[OF assms]
  by (simp add: Book_inv_def addPart_def Let_def)

lemma Book_inv_addChapterToPart: "Book_inv b \<Longrightarrow> Book_inv (addChapterToPart chapter b)"
  by (simp add: Book_inv_def addChapterToPart_def)

lemma addChapterToPart_no_part: "m_parts b = [] \<Longrightarrow> addChapterToPart chapter b = b"
  by (simp add: addChapterToPart_def)

lemma Book_part_addChapterToPart:
  assumes "Book_inv b" and "i < length (m_parts b)"
  shows "Book_part (addChapterToPart chapter b) i =
           Book_part b i
           @ (if i = length (m_parts b) - 1 then Section_generate chapter @ ''\<newline>'' else [])"
proof -
  from assms have cp: "0 \<le> m_currentPart b" "nat (m_currentPart b) = length (m_parts b) - 1"
    "nat (m_currentPart b) < length (m_parts b)"
    by (auto simp: Book_inv_def)
  show ?thesis
    using cp by (simp add: addChapterToPart_def Book_part_def split: option.splits)
qed

lemma Book_part_addPart:
  assumes "i < length (m_parts b)"
  shows "Book_part (addPart title b) i = Book_part b i"
  using assms by (simp add: Book_part_def addPart_def Let_def nth_append)

lemma Book_part_addPart_new:
  "Book_part (addPart title b) (length (m_parts b)) =
     BS # ''part{'' @ title @ ''}\<newline>\<newline>''
     @ (case m_partChapters b (length (m_parts b)) of
          Some chapters \<Rightarrow> concat (map (\<lambda>chapter. Section_generate chapter @ ''\<newline>'') chapters)
        | None \<Rightarrow> [])"
  by (simp add: Book_part_def addPart_def Let_def)

lemma Book_parts_addPart:
  "Book_parts (addPart title b) = Book_parts b @ Book_part (addPart title b) (length (m_parts b))"
proof -
  have m: "map (Book_part (addPart title b)) [0 ..< length (m_parts b)]
      = map (Book_part b) [0 ..< length (m_parts b)]"
    by (rule map_cong) (simp_all add: Book_part_addPart)
  have l: "length (m_parts (addPart title b)) = Suc (length (m_parts b))"
    by (simp add: addPart_def Let_def)
  show ?thesis
    unfolding Book_parts_def l by (simp only: upt_Suc_append le0 map_append concat_append m) simp
qed

lemma concat_map_last_suffix:
  assumes "0 < n"
  shows "concat (map (\<lambda>i. g i @ (if i = n - 1 then s else [])) [0 ..< n])
           = concat (map g [0 ..< n]) @ s"
proof -
  from assms obtain m where n: "n = Suc m" by (cases n) auto
  have c: "concat (map (\<lambda>i. g i @ (if i = m then s else [])) [0 ..< m])
      = concat (map g [0 ..< m])"
    by (rule arg_cong[where f = concat], rule map_ext) auto
  show ?thesis by (simp add: n c)
qed

lemma Book_parts_addChapterToPart:
  assumes "Book_inv b" and "m_parts b \<noteq> []"
  shows "Book_parts (addChapterToPart ch b) = Book_parts b @ Section_generate ch @ ''\<newline>''"
proof -
  have l: "m_parts (addChapterToPart ch b) = m_parts b"
    by (simp add: addChapterToPart_def)
  have c: "concat (map (Book_part (addChapterToPart ch b)) [0 ..< length (m_parts b)])
      = concat (map (\<lambda>i. Book_part b i
               @ (if i = length (m_parts b) - 1 then Section_generate ch @ ''\<newline>'' else []))
          [0 ..< length (m_parts b)])"
    by (rule arg_cong[where f = concat], rule map_ext)
       (simp add: Book_part_addChapterToPart[OF assms(1)])
  have n: "0 < length (m_parts b)" using assms(2) by simp
  show ?thesis
    unfolding Book_parts_def l c concat_map_last_suffix[OF n] ..
qed

lemma Book_parts_unfold:
  "Book_parts b =
     concat (map (\<lambda>i. BS # ''part{'' @ m_parts b ! i @ ''}\<newline>\<newline>''
                        @ (case m_partChapters b i of
                             Some chapters \<Rightarrow>
                               concat (map (\<lambda>c. Section_generate c @ ''\<newline>'') chapters)
                           | None \<Rightarrow> []))
               [0 ..< length (m_parts b)])"
  unfolding Book_parts_def by (rule arg_cong[where f = concat], rule map_cong) (simp_all add: Book_part_def)

lemma Book_generateDocument_addChapterToPart:
  "Book_generateDocument (addChapterToPart ch b) =
     BS # ''begin{document}\<newline>\<newline>''
     @ BS # ''maketitle\<newline>\<newline>''
     @ abstract_block (m_abstract_Book b)
     @ (if m_includeTableOfContents_Book b then BS # ''tableofcontents\<newline>\<newline>'' else [])
     @ (if m_includeListOfFigures_Book b then BS # ''listoffigures\<newline>\<newline>'' else [])
     @ (if m_includeListOfTables_Book b then BS # ''listoftables\<newline>\<newline>'' else [])
     @ Book_parts (addChapterToPart ch b)
     @ sections_block b
     @ environments_block b
     @ rawContent_block b
     @ (if m_appendices b \<noteq> []
        then BS # ''appendix\<newline>\<newline>''
             @ concat (map (\<lambda>appendix. Section_generate appendix @ ''\<newline>'') (m_appendices b))
        else [])
     @ (if m_includeIndex_Book b then BS # ''printindex\<newline>\<newline>'' else [])
     @ BS # ''end{document}\<newline>''"
  by (simp add: Book_generateDocument_def addChapterToPart_def sections_block_def
      environments_block_def rawContent_block_def)

lemma Book_parts_scenario:
  "Book_parts (addPart title2 (addChapterToPart ch (addPart title1 (Book_init t a d l))))
       = BS # ''part{'' @ title1 @ ''}\<newline>\<newline>'' @ Section_generate ch @ ''\<newline>''
         @ BS # ''part{'' @ title2 @ ''}\<newline>\<newline>''"
proof -
  let ?b0 = "Book_init t a d l"
  let ?b1 = "addPart title1 ?b0"
  let ?b2 = "addChapterToPart ch ?b1"
  have p0: "m_parts ?b0 = []" and c0: "m_partChapters ?b0 = Map.empty"
    by (simp_all add: Book_init_def addPackage_def Document.defs Book.defs)
  have i1: "Book_inv ?b1" using Book_inv_addPart[of ?b0 title1] p0 by simp
  have p1: "m_parts ?b1 = [title1]" using p0 by (simp add: addPart_def Let_def)
  have c1: "m_partChapters ?b1 = Map.empty" using c0 by (simp add: addPart_def Let_def)
  have part1: "Book_part ?b1 0 = BS # ''part{'' @ title1 @ ''}\<newline>\<newline>''"
    using p1 c1 by (simp add: Book_part_def)
  have part2: "Book_part ?b2 0 = Book_part ?b1 0 @ Section_generate ch @ ''\<newline>''"
    using Book_part_addChapterToPart[OF i1, of 0 ch] p1 by simp
  have p2: "m_parts ?b2 = [title1]" using p1 by (simp add: addChapterToPart_def)
  have c2: "m_partChapters ?b2 1 = None"
    using c1 i1 p1 by (simp add: addChapterToPart_def Book_inv_def)
  have parts2: "Book_parts ?b2 = Book_part ?b2 0" using p2 by (simp add: Book_parts_def)
  have new: "Book_part (addPart title2 ?b2) (length (m_parts ?b2))
      = BS # ''part{'' @ title2 @ ''}\<newline>\<newline>''"
    unfolding Book_part_addPart_new using p2 c2 by simp
  show ?thesis
    unfolding Book_parts_addPart new parts2 part2 part1 by simp
qed

lemma Book_generateDocument_scenario:
  "Book_generateDocument
       (addPart title2 (addChapterToPart ch (addPart title1 (Book_init t a d l))))
     = BS # ''begin{document}\<newline>\<newline>'' @ BS # ''maketitle\<newline>\<newline>''
       @ BS # ''part{'' @ title1 @ ''}\<newline>\<newline>'' @ Section_generate ch @ ''\<newline>''
       @ BS # ''part{'' @ title2 @ ''}\<newline>\<newline>''
       @ BS # ''end{document}\<newline>''"
proof -
  let ?b3 = "addPart title2 (addChapterToPart ch (addPart title1 (Book_init t a d l)))"
  have f: "m_abstract_Book ?b3 = [] \<and> \<not> m_includeTableOfContents_Book ?b3
      \<and> \<not> m_includeListOfFigures_Book ?b3 \<and> \<not> m_includeListOfTables_Book ?b3
      \<and> m_sections ?b3 = [] \<and> m_environments ?b3 = [] \<and> m_rawContent ?b3 = []
      \<and> m_appendices ?b3 = [] \<and> \<not> m_includeIndex_Book ?b3"
    by (cases l) (simp_all add: addPart_def addChapterToPart_def Book_init_def addPackage_def Let_def
        Document_init_def Document.defs Book.defs)
  show ?thesis
    unfolding Book_generateDocument_def Book_parts_scenario
    using f by (simp add: abstract_block_def sections_block_def environments_block_def
        rawContent_block_def)
qed

text \<open>
  Claim C7. In a book with no part \<open>addChapterToPart\<close> changes nothing, and the body
  the book then generates has no part and no chapter between the front matter and the
  sections. In a book as its methods make it (\<open>m_currentPart\<close> the index of the last
  part) that has a part, the body generated after \<open>addChapterToPart\<close> is the body of
  the book before with the text of the chapter after the blocks of all parts, that is
  at the end of the block of the last part; the block of every other part is as it
  was. The constructor gives such a book, and \<open>addPart\<close> (below \<open>2 ^ 31\<close> parts) and
  \<open>addChapterToPart\<close> keep it so. A new book with a part, a chapter attached, and a
  second part generates \<open>\part\<close> for the first part, the chapter, then \<open>\part\<close> for
  the second part and no chapter after it.
\<close>

theorem Book_generateDocument_chapter_under_last_part:
  "(m_parts b = [] \<longrightarrow>
      addChapterToPart ch b = b
      \<and> Book_generateDocument (addChapterToPart ch b) =
          BS # ''begin{document}\<newline>\<newline>''
          @ BS # ''maketitle\<newline>\<newline>''
          @ abstract_block (m_abstract_Book b)
          @ (if m_includeTableOfContents_Book b then BS # ''tableofcontents\<newline>\<newline>'' else [])
          @ (if m_includeListOfFigures_Book b then BS # ''listoffigures\<newline>\<newline>'' else [])
          @ (if m_includeListOfTables_Book b then BS # ''listoftables\<newline>\<newline>'' else [])
          @ sections_block b
          @ environments_block b
          @ rawContent_block b
          @ (if m_appendices b \<noteq> []
             then BS # ''appendix\<newline>\<newline>''
                  @ concat (map (\<lambda>appendix. Section_generate appendix @ ''\<newline>'') (m_appendices b))
             else [])
          @ (if m_includeIndex_Book b then BS # ''printindex\<newline>\<newline>'' else [])
          @ BS # ''end{document}\<newline>'')
   \<and> (Book_inv b \<and> m_parts b \<noteq> [] \<longrightarrow>
        Book_generateDocument (addChapterToPart ch b) =
          BS # ''begin{document}\<newline>\<newline>''
          @ BS # ''maketitle\<newline>\<newline>''
          @ abstract_block (m_abstract_Book b)
          @ (if m_includeTableOfContents_Book b then BS # ''tableofcontents\<newline>\<newline>'' else [])
          @ (if m_includeListOfFigures_Book b then BS # ''listoffigures\<newline>\<newline>'' else [])
          @ (if m_includeListOfTables_Book b then BS # ''listoftables\<newline>\<newline>'' else [])
          @ concat (map (\<lambda>i. BS # ''part{'' @ m_parts b ! i @ ''}\<newline>\<newline>''
                        @ (case m_partChapters b i of
                             Some chapters \<Rightarrow>
                               concat (map (\<lambda>c. Section_generate c @ ''\<newline>'') chapters)
                           | None \<Rightarrow> []))
                     [0 ..< length (m_parts b)])
          @ Section_generate ch @ ''\<newline>''
          @ sections_block b
          @ environments_block b
          @ rawContent_block b
          @ (if m_appendices b \<noteq> []
             then BS # ''appendix\<newline>\<newline>''
                  @ concat (map (\<lambda>appendix. Section_generate appendix @ ''\<newline>'') (m_appendices b))
             else [])
          @ (if m_includeIndex_Book b then BS # ''printindex\<newline>\<newline>'' else [])
          @ BS # ''end{document}\<newline>'')
   \<and> (Book_inv b \<longrightarrow>
        (\<forall>i < length (m_parts b).
           Book_part (addChapterToPart ch b) i =
             Book_part b i
             @ (if i = length (m_parts b) - 1 then Section_generate ch @ ''\<newline>'' else [])))
   \<and> (Book_inv b \<and> length (m_parts b) < 2 ^ 31 \<longrightarrow>
        Book_inv (addPart title b) \<and> Book_inv (addChapterToPart ch b))
   \<and> Book_inv (Book_init t a d l)
   \<and> Book_generateDocument
        (addPart title2 (addChapterToPart ch (addPart title1 (Book_init t a d l))))
       = BS # ''begin{document}\<newline>\<newline>'' @ BS # ''maketitle\<newline>\<newline>''
         @ BS # ''part{'' @ title1 @ ''}\<newline>\<newline>'' @ Section_generate ch @ ''\<newline>''
         @ BS # ''part{'' @ title2 @ ''}\<newline>\<newline>''
         @ BS # ''end{document}\<newline>''"
proof (intro conjI impI)
  assume e: "m_parts b = []"
  show "addChapterToPart ch b = b" using e by (rule addChapterToPart_no_part)
  have "Book_parts (addChapterToPart ch b) = []"
    using e by (simp add: addChapterToPart_no_part Book_parts_def)
  then show "Book_generateDocument (addChapterToPart ch b) =
          BS # ''begin{document}\<newline>\<newline>''
          @ BS # ''maketitle\<newline>\<newline>''
          @ abstract_block (m_abstract_Book b)
          @ (if m_includeTableOfContents_Book b then BS # ''tableofcontents\<newline>\<newline>'' else [])
          @ (if m_includeListOfFigures_Book b then BS # ''listoffigures\<newline>\<newline>'' else [])
          @ (if m_includeListOfTables_Book b then BS # ''listoftables\<newline>\<newline>'' else [])
          @ sections_block b
          @ environments_block b
          @ rawContent_block b
          @ (if m_appendices b \<noteq> []
             then BS # ''appendix\<newline>\<newline>''
                  @ concat (map (\<lambda>appendix. Section_generate appendix @ ''\<newline>'') (m_appendices b))
             else [])
          @ (if m_includeIndex_Book b then BS # ''printindex\<newline>\<newline>'' else [])
          @ BS # ''end{document}\<newline>''"
    unfolding Book_generateDocument_addChapterToPart by simp
next
  assume a: "Book_inv b \<and> m_parts b \<noteq> []"
  then have p: "Book_parts (addChapterToPart ch b) = Book_parts b @ Section_generate ch @ ''\<newline>''"
    by (simp add: Book_parts_addChapterToPart)
  show "Book_generateDocument (addChapterToPart ch b) =
          BS # ''begin{document}\<newline>\<newline>''
          @ BS # ''maketitle\<newline>\<newline>''
          @ abstract_block (m_abstract_Book b)
          @ (if m_includeTableOfContents_Book b then BS # ''tableofcontents\<newline>\<newline>'' else [])
          @ (if m_includeListOfFigures_Book b then BS # ''listoffigures\<newline>\<newline>'' else [])
          @ (if m_includeListOfTables_Book b then BS # ''listoftables\<newline>\<newline>'' else [])
          @ concat (map (\<lambda>i. BS # ''part{'' @ m_parts b ! i @ ''}\<newline>\<newline>''
                        @ (case m_partChapters b i of
                             Some chapters \<Rightarrow>
                               concat (map (\<lambda>c. Section_generate c @ ''\<newline>'') chapters)
                           | None \<Rightarrow> []))
                     [0 ..< length (m_parts b)])
          @ Section_generate ch @ ''\<newline>''
          @ sections_block b
          @ environments_block b
          @ rawContent_block b
          @ (if m_appendices b \<noteq> []
             then BS # ''appendix\<newline>\<newline>''
                  @ concat (map (\<lambda>appendix. Section_generate appendix @ ''\<newline>'') (m_appendices b))
             else [])
          @ (if m_includeIndex_Book b then BS # ''printindex\<newline>\<newline>'' else [])
          @ BS # ''end{document}\<newline>''"
    unfolding Book_generateDocument_addChapterToPart p
    by (simp add: Book_parts_unfold[of b])
next
  assume "Book_inv b"
  then show "\<forall>i < length (m_parts b).
           Book_part (addChapterToPart ch b) i =
             Book_part b i
             @ (if i = length (m_parts b) - 1 then Section_generate ch @ ''\<newline>'' else [])"
    using Book_part_addChapterToPart by blast
next
  assume "Book_inv b \<and> length (m_parts b) < 2 ^ 31"
  then show "Book_inv (addPart title b)" using Book_inv_addPart by blast
next
  assume "Book_inv b \<and> length (m_parts b) < 2 ^ 31"
  then show "Book_inv (addChapterToPart ch b)" using Book_inv_addChapterToPart by blast
next
  show "Book_inv (Book_init t a d l)" by (rule Book_inv_init)
next
  show "Book_generateDocument
        (addPart title2 (addChapterToPart ch (addPart title1 (Book_init t a d l))))
       = BS # ''begin{document}\<newline>\<newline>'' @ BS # ''maketitle\<newline>\<newline>''
         @ BS # ''part{'' @ title1 @ ''}\<newline>\<newline>'' @ Section_generate ch @ ''\<newline>''
         @ BS # ''part{'' @ title2 @ ''}\<newline>\<newline>''
         @ BS # ''end{document}\<newline>''"
    by (rule Book_generateDocument_scenario)
qed


theorem Book_generateDocument_chapter_under_last_part_witness:
  "m_parts (Book_init ''T'' ''A'' ''D'' ENGLISH) = []
   \<and> addChapterToPart (Section_init ''Lost'' CHAPTER) (Book_init ''T'' ''A'' ''D'' ENGLISH)
       = Book_init ''T'' ''A'' ''D'' ENGLISH
   \<and> Book_generateDocument
        (addChapterToPart (Section_init ''Lost'' CHAPTER) (Book_init ''T'' ''A'' ''D'' ENGLISH))
       = BS # ''begin{document}\<newline>\<newline>'' @ BS # ''maketitle\<newline>\<newline>''
         @ BS # ''end{document}\<newline>''
   \<and> Book_inv (Book_init ''T'' ''A'' ''D'' ENGLISH)
   \<and> length (m_parts (Book_init ''T'' ''A'' ''D'' ENGLISH)) < 2 ^ 31
   \<and> Book_inv (addPart ''One'' (Book_init ''T'' ''A'' ''D'' ENGLISH))
   \<and> m_parts (addPart ''One'' (Book_init ''T'' ''A'' ''D'' ENGLISH)) \<noteq> []
   \<and> Book_generateDocument
        (addChapterToPart (addContent ''text'' (Section_init ''Ch'' CHAPTER))
          (addPart ''One'' (Book_init ''T'' ''A'' ''D'' ENGLISH)))
       = BS # ''begin{document}\<newline>\<newline>'' @ BS # ''maketitle\<newline>\<newline>''
         @ BS # ''part{One}\<newline>\<newline>'' @ BS # ''chapter{Ch}\<newline>text\<newline>\<newline>''
         @ BS # ''end{document}\<newline>''
   \<and> Book_generateDocument
        (addPart ''Two''
          (addChapterToPart (addContent ''text'' (Section_init ''Ch'' CHAPTER))
            (addPart ''One'' (Book_init ''T'' ''A'' ''D'' ENGLISH))))
       = BS # ''begin{document}\<newline>\<newline>'' @ BS # ''maketitle\<newline>\<newline>''
         @ BS # ''part{One}\<newline>\<newline>'' @ BS # ''chapter{Ch}\<newline>text\<newline>\<newline>''
         @ BS # ''part{Two}\<newline>\<newline>'' @ BS # ''end{document}\<newline>''"
proof -
  let ?b = "Book_init ''T'' ''A'' ''D'' ENGLISH"
  let ?one = "addPart ''One'' ?b"
  let ?chap = "addContent ''text'' (Section_init ''Ch'' CHAPTER)"
  have p: "m_parts ?b = []"
    by (simp add: Book_init_def addPackage_def Document.defs Book.defs)
  have f: "m_abstract_Book ?b = [] \<and> \<not> m_includeTableOfContents_Book ?b
      \<and> \<not> m_includeListOfFigures_Book ?b \<and> \<not> m_includeListOfTables_Book ?b
      \<and> m_sections ?b = [] \<and> m_environments ?b = [] \<and> m_rawContent ?b = []
      \<and> m_appendices ?b = [] \<and> \<not> m_includeIndex_Book ?b \<and> m_partChapters ?b = Map.empty"
    by (simp add: Book_init_def addPackage_def Document_init_def Document.defs Book.defs)
  note th0 = Book_generateDocument_chapter_under_last_part
    [where b = ?b and t = "''T''" and a = "''A''" and d = "''D''" and l = ENGLISH]
  have 1: "addChapterToPart (Section_init ''Lost'' CHAPTER) ?b = ?b"
    using th0 [where ch = "Section_init ''Lost'' CHAPTER", THEN conjunct1] p by blast
  have 2: "Book_generateDocument (addChapterToPart (Section_init ''Lost'' CHAPTER) ?b)
       = BS # ''begin{document}\<newline>\<newline>'' @ BS # ''maketitle\<newline>\<newline>''
         @ BS # ''end{document}\<newline>''"
  proof -
    have "Book_generateDocument (addChapterToPart (Section_init ''Lost'' CHAPTER) ?b) =
          BS # ''begin{document}\<newline>\<newline>''
          @ BS # ''maketitle\<newline>\<newline>''
          @ abstract_block (m_abstract_Book ?b)
          @ (if m_includeTableOfContents_Book ?b then BS # ''tableofcontents\<newline>\<newline>'' else [])
          @ (if m_includeListOfFigures_Book ?b then BS # ''listoffigures\<newline>\<newline>'' else [])
          @ (if m_includeListOfTables_Book ?b then BS # ''listoftables\<newline>\<newline>'' else [])
          @ sections_block ?b
          @ environments_block ?b
          @ rawContent_block ?b
          @ (if m_appendices ?b \<noteq> []
             then BS # ''appendix\<newline>\<newline>''
                  @ concat (map (\<lambda>appendix. Section_generate appendix @ ''\<newline>'') (m_appendices ?b))
             else [])
          @ (if m_includeIndex_Book ?b then BS # ''printindex\<newline>\<newline>'' else [])
          @ BS # ''end{document}\<newline>''"
      using th0 [where ch = "Section_init ''Lost'' CHAPTER", THEN conjunct1] p by blast
    then show ?thesis
      using f by (simp add: abstract_block_def sections_block_def environments_block_def
          rawContent_block_def)
  qed
  have 3: "Book_inv ?b"
    using th0 [THEN conjunct2, THEN conjunct2, THEN conjunct2, THEN conjunct2, THEN conjunct1] .
  have 4: "length (m_parts ?b) < 2 ^ 31" using p by simp
  have 5: "Book_inv ?one"
    using th0 [where title = "''One''", THEN conjunct2, THEN conjunct2, THEN conjunct2,
               THEN conjunct1] 3 4 by blast
  have p1: "m_parts ?one = [''One'']" using p by (simp add: addPart_def Let_def)
  have 6: "m_parts ?one \<noteq> []" using p1 by simp
  have f1: "m_abstract_Book ?one = [] \<and> \<not> m_includeTableOfContents_Book ?one
      \<and> \<not> m_includeListOfFigures_Book ?one \<and> \<not> m_includeListOfTables_Book ?one
      \<and> m_sections ?one = [] \<and> m_environments ?one = [] \<and> m_rawContent ?one = []
      \<and> m_appendices ?one = [] \<and> \<not> m_includeIndex_Book ?one
      \<and> m_partChapters ?one = Map.empty"
    using f by (simp add: addPart_def Let_def)
  have 7: "Book_generateDocument (addChapterToPart ?chap ?one)
       = BS # ''begin{document}\<newline>\<newline>'' @ BS # ''maketitle\<newline>\<newline>''
         @ BS # ''part{One}\<newline>\<newline>'' @ BS # ''chapter{Ch}\<newline>text\<newline>\<newline>''
         @ BS # ''end{document}\<newline>''"
    using Book_generateDocument_chapter_under_last_part
            [where b = ?one and ch = ?chap, THEN conjunct2, THEN conjunct1] 5 6
    by (simp add: f1 p1 abstract_block_def sections_block_def environments_block_def
        rawContent_block_def Section_generate_def addContent_def Section_init_def)
  have 8: "Book_generateDocument (addPart ''Two'' (addChapterToPart ?chap ?one))
       = BS # ''begin{document}\<newline>\<newline>'' @ BS # ''maketitle\<newline>\<newline>''
         @ BS # ''part{One}\<newline>\<newline>'' @ BS # ''chapter{Ch}\<newline>text\<newline>\<newline>''
         @ BS # ''part{Two}\<newline>\<newline>'' @ BS # ''end{document}\<newline>''"
    using th0 [where ch = ?chap and ?title1.0 = "''One''" and ?title2.0 = "''Two''",
               THEN conjunct2, THEN conjunct2, THEN conjunct2, THEN conjunct2, THEN conjunct2]
    by (simp add: Section_generate_def addContent_def Section_init_def)
  from p 1 2 3 4 5 6 7 8 show ?thesis by blast
qed

section \<open>Properties of the package list\<close>

text \<open>The keys of the package map increase strictly along its list of entries, as in
  every \<^verbatim>\<open>std::map\<close>; \<open>addPackage\<close> keeps them so and the constructor starts so.\<close>

lemma map_assign_keys: "fst ` set (map_assign k v m) = insert k (fst ` set m)"
proof (induction m)
  case Nil
  show ?case by simp
next
  case (Cons e m)
  obtain k' v' where e: "e = (k', v')" by (cases e)
  show ?case using Cons.IH by (simp add: e insert_commute)
qed

lemma map_assign_sorted:
  "sorted_wrt (<) (map fst m) \<Longrightarrow> sorted_wrt (<) (map fst (map_assign k v m))"
proof (induction m)
  case Nil
  then show ?case by simp
next
  case (Cons e m)
  obtain k' v' where e: "e = (k', v')" by (cases e)
  from Cons.prems e have s: "sorted_wrt (<) (map fst m)" and lt: "\<forall>x \<in> fst ` set m. k' < x"
    by auto
  show ?case
  proof (cases "k < k'")
    case True
    with Cons.prems e show ?thesis by (auto intro: less_trans)
  next
    case False
    show ?thesis
    proof (cases "k = k'")
      case True
      with Cons.prems e show ?thesis by auto
    next
      case ne: False
      with False have "k' < k" by auto
      with Cons.IH[OF s] lt e False ne show ?thesis
        by (simp add: map_assign_keys)
    qed
  qed
qed

lemma map_assign_filter_same:
  "sorted_wrt (<) (map fst m) \<Longrightarrow> filter (\<lambda>e. fst e = k) (map_assign k v m) = [(k, v)]"
proof (induction m)
  case Nil
  then show ?case by simp
next
  case (Cons e m)
  obtain k' v' where e: "e = (k', v')" by (cases e)
  from Cons.prems e have s: "sorted_wrt (<) (map fst m)" and lt: "\<forall>x \<in> set m. k' < fst x"
    by auto
  show ?case
  proof (cases "k < k'")
    case True
    then have "\<forall>x \<in> set m. fst x \<noteq> k" using lt by (auto dest: less_trans)
    then have "filter (\<lambda>e. fst e = k) m = []" by (simp add: filter_empty_conv)
    with True e show ?thesis by auto
  next
    case False
    show ?thesis
    proof (cases "k = k'")
      case True
      then have "\<forall>x \<in> set m. fst x \<noteq> k" using lt by auto
      then have "filter (\<lambda>e. fst e = k) m = []" by (simp add: filter_empty_conv)
      with True e show ?thesis by auto
    next
      case ne: False
      with False Cons.IH[OF s] e show ?thesis by auto
    qed
  qed
qed

lemma map_assign_filter_other:
  "k \<noteq> k' \<Longrightarrow> filter (\<lambda>e. fst e = k') (map_assign k v m) = filter (\<lambda>e. fst e = k') m"
  by (induction m) auto

lemma addPackages_sorted:
  "sorted_wrt (<) (map fst (m_packages d)) \<Longrightarrow>
   sorted_wrt (<) (map fst (m_packages (addPackages calls d)))"
proof (induction calls arbitrary: d)
  case Nil
  then show ?case by (simp add: addPackages_def)
next
  case (Cons call calls)
  have "sorted_wrt (<) (map fst (m_packages (addPackage (fst call) (snd call) d)))"
    using Cons.prems by (simp add: addPackage_def map_assign_sorted)
  from Cons.IH[OF this] show ?case by (simp add: addPackages_def)
qed

lemma addPackages_append:
  "addPackages (xs @ ys) d = addPackages ys (addPackages xs d)"
  by (simp add: addPackages_def)

lemma addPackages_filter_other:
  "package \<notin> fst ` set calls \<Longrightarrow>
   filter (\<lambda>e. fst e = package) (m_packages (addPackages calls d))
     = filter (\<lambda>e. fst e = package) (m_packages d)"
proof (induction calls arbitrary: d)
  case Nil
  then show ?case by (simp add: addPackages_def)
next
  case (Cons call calls)
  from Cons.prems have ne: "fst call \<noteq> package" and r: "package \<notin> fst ` set calls" by auto
  have "filter (\<lambda>e. fst e = package) (m_packages (addPackage (fst call) (snd call) d))
      = filter (\<lambda>e. fst e = package) (m_packages d)"
    using ne by (simp add: addPackage_def map_assign_filter_other)
  with Cons.IH[OF r, of "addPackage (fst call) (snd call) d"] show ?case
    by (simp add: addPackages_def)
qed

lemma addPackages_only_packages:
  "Document_preamble_rest (addPackages calls d) = Document_preamble_rest d
   \<and> getDocumentClass (addPackages calls d) = getDocumentClass d"
proof (induction calls arbitrary: d)
  case Nil
  then show ?case by (simp add: addPackages_def)
next
  case (Cons call calls)
  have "Document_preamble_rest (addPackage (fst call) (snd call) d) = Document_preamble_rest d
      \<and> getDocumentClass (addPackage (fst call) (snd call) d) = getDocumentClass d"
    by (simp add: addPackage_def Document_preamble_rest_def getDocumentClass_def
        getLanguageConfiguration_def)
  with Cons.IH[of "addPackage (fst call) (snd call) d"] show ?case
    by (simp add: addPackages_def)
qed

lemma addPackages_only_packages_Presentation:
  "Presentation_preamble_rest (addPackages calls p) = Presentation_preamble_rest p"
proof (induction calls arbitrary: p)
  case Nil
  then show ?case by (simp add: addPackages_def)
next
  case (Cons call calls)
  have "Presentation_preamble_rest (addPackage (fst call) (snd call) p) = Presentation_preamble_rest p"
    by (simp add: addPackage_def Presentation_preamble_rest_def getLanguageConfiguration_def)
  with Cons.IH[of "addPackage (fst call) (snd call) p"] show ?case
    by (simp add: addPackages_def)
qed

lemma Document_init_sorted:
  "sorted_wrt (<) (map fst (m_packages (Document_init type title author date language)))"
proof -
  have a: "\<And>k v (d :: Document). sorted_wrt (<) (map fst (m_packages d)) \<Longrightarrow>
      sorted_wrt (<) (map fst (m_packages (addPackage k v d)))"
    by (simp add: addPackage_def map_assign_sorted)
  show ?thesis
    unfolding Document_init_def Let_def
    by (cases language) (simp_all add: a)
qed

lemma Presentation_generatePreamble_packages:
  "Presentation_generatePreamble (addPackages calls p)
     = BS # ''documentclass{beamer}\<newline>\<newline>''
       @ concat (map usepackage_line (m_packages (addPackages calls p)))
       @ ''\<newline>''
       @ Presentation_preamble_rest p"
  by (simp add: Presentation_generatePreamble_def addPackages_only_packages_Presentation)

text \<open>
  Claim C6, as the code has it. After any sequence of \<open>addPackage\<close> calls on a
  document, the package map holds exactly one entry for a package named in the
  sequence, with the options of the last call that names it. The preamble writes the
  package list from the map, one \<open>\usepackage\<close> line for each entry, between the
  document class line and the rest of the preamble, and that rest does not depend on
  the calls. (The rest can hold further \<open>\usepackage\<close> lines: the theorem setup
  writes one for \<open>amsthm\<close>, the algorithm setup for \<open>algorithm\<close> and
  \<open>algpseudocode\<close>.)
\<close>

theorem addPackage_last_options_win:
  assumes "sorted_wrt (<) (map fst (m_packages d))"
    and "package \<notin> fst ` set later"
  shows "filter (\<lambda>e. fst e = package)
           (m_packages (addPackages (earlier @ [(package, options)] @ later) d))
         = [(package, options)]
    \<and> sorted_wrt (<)
         (map fst (m_packages (addPackages (earlier @ [(package, options)] @ later) d)))
    \<and> Document_generatePreamble (addPackages (earlier @ [(package, options)] @ later) d)
        = BS # ''documentclass{'' @ getDocumentClass d @ ''}\<newline>\<newline>''
          @ concat (map usepackage_line
               (m_packages (addPackages (earlier @ [(package, options)] @ later) d)))
          @ ''\<newline>''
          @ Document_preamble_rest d"
proof (intro conjI)
  let ?d1 = "addPackages earlier d"
  let ?d2 = "addPackages [(package, options)] ?d1"
  have s1: "sorted_wrt (<) (map fst (m_packages ?d1))"
    using assms(1) by (rule addPackages_sorted)
  have "filter (\<lambda>e. fst e = package) (m_packages ?d2) = [(package, options)]"
    using s1 by (simp add: addPackages_def addPackage_def map_assign_filter_same)
  then show "filter (\<lambda>e. fst e = package)
           (m_packages (addPackages (earlier @ [(package, options)] @ later) d))
         = [(package, options)]"
    using addPackages_filter_other[OF assms(2), of ?d2]
    by (simp only: addPackages_append)
  show "sorted_wrt (<)
         (map fst (m_packages (addPackages (earlier @ [(package, options)] @ later) d)))"
    using assms(1) by (rule addPackages_sorted)
  show "Document_generatePreamble (addPackages (earlier @ [(package, options)] @ later) d)
        = BS # ''documentclass{'' @ getDocumentClass d @ ''}\<newline>\<newline>''
          @ concat (map usepackage_line
               (m_packages (addPackages (earlier @ [(package, options)] @ later) d)))
          @ ''\<newline>''
          @ Document_preamble_rest d"
    unfolding Document_generatePreamble_def
    using addPackages_only_packages[of "earlier @ [(package, options)] @ later" d]
    by simp
qed

theorem addPackage_last_options_win_witness:
  "sorted_wrt (<) (map fst (m_packages (Document_init ARTICLE ''T'' ''A'' ''D'' ENGLISH)))
   \<and> ''geometry'' \<notin> fst ` set [(''amsmath'', [])]
   \<and> filter (\<lambda>e. fst e = ''geometry'')
        (m_packages (addPackages
           ([(''geometry'', ''margin=1in'')] @ [(''geometry'', ''margin=2cm'')] @ [(''amsmath'', [])])
           (Document_init ARTICLE ''T'' ''A'' ''D'' ENGLISH)))
       = [(''geometry'', ''margin=2cm'')]
   \<and> Document_generatePreamble
        (addPackages
           ([(''geometry'', ''margin=1in'')] @ [(''geometry'', ''margin=2cm'')] @ [(''amsmath'', [])])
           (Document_init ARTICLE ''T'' ''A'' ''D'' ENGLISH))
       = BS # ''documentclass{article}\<newline>\<newline>''
         @ BS # ''usepackage{amsmath}\<newline>''
         @ BS # ''usepackage[T1]{fontenc}\<newline>''
         @ BS # ''usepackage[margin=2cm]{geometry}\<newline>''
         @ BS # ''usepackage[utf8]{inputenc}\<newline>\<newline>''
         @ BS # ''title{T}\<newline>'' @ BS # ''author{A}\<newline>'' @ BS # ''date{D}\<newline>\<newline>''"
proof -
  let ?d = "Document_init ARTICLE ''T'' ''A'' ''D'' ENGLISH"
  let ?calls = "[(''geometry'', ''margin=1in'')] @ [(''geometry'', ''margin=2cm'')] @ [(''amsmath'', [])]"
  have h1: "sorted_wrt (<) (map fst (m_packages ?d))" by (rule Document_init_sorted)
  have h2: "''geometry'' \<notin> fst ` set [(''amsmath'', [])]" by simp
  note th = addPackage_last_options_win [OF h1 h2, of "[(''geometry'', ''margin=1in'')]" "''margin=2cm''"]
  have p: "m_packages (addPackages ?calls ?d)
      = [(''amsmath'', []), (''fontenc'', ''T1''), (''geometry'', ''margin=2cm''),
         (''inputenc'', ''utf8'')]"
    by (simp add: addPackages_def addPackage_def Document_init_def)
  have g: "Document_generatePreamble (addPackages ?calls ?d)
       = BS # ''documentclass{article}\<newline>\<newline>''
         @ BS # ''usepackage{amsmath}\<newline>''
         @ BS # ''usepackage[T1]{fontenc}\<newline>''
         @ BS # ''usepackage[margin=2cm]{geometry}\<newline>''
         @ BS # ''usepackage[utf8]{inputenc}\<newline>\<newline>''
         @ BS # ''title{T}\<newline>'' @ BS # ''author{A}\<newline>'' @ BS # ''date{D}\<newline>\<newline>''"
    unfolding th [THEN conjunct2, THEN conjunct2] p
    by (simp add: Document_init_def addPackage_def getDocumentClass_def usepackage_line_def
        Document_preamble_rest_def getLanguageConfiguration_def)
  from h1 h2 th [THEN conjunct1] g show ?thesis by blast
qed

text \<open>
  Claim C6 as stated fails: when the package \<open>amsthm\<close> is added by \<open>addPackage\<close> and
  the theorems are enabled, the preamble holds the line \<open>\usepackage{amsthm}\<close> twice,
  once in the package list and once in the theorem setup.
\<close>

theorem usepackage_amsthm_twice_counterexample:
  "occurrences (BS # ''usepackage{amsthm}\<newline>'')
     (Document_generatePreamble
        (enableTheorems (addPackage ''amsthm'' [] (Document_init ARTICLE [] [] [] ENGLISH)))) = 2"
  by code_simp

end
